theory Spec2Isabelle
  imports Complex_Main "HOL-Library.Word"
begin

section \<open>Machine arithmetic of the target\<close>

text \<open>
  The controller is C for a 32-bit target. Every integer expression of
  \<^verbatim>\<open>src/main/flight/pid.c\<close> is computed in \<^verbatim>\<open>int\<close> (32 bits, two's complement)
  after the integer promotions. Integer values are modelled as \<open>int\<close>; wherever the
  operand types do not exclude an overflow the result is wrapped with \<open>s32\<close>.
  Values read from typed globals and configuration fields are words of the declared width,
  read with \<open>uint\<close> (unsigned) or \<open>sint\<close> (signed).

  \<^verbatim>\<open>float\<close> values are modelled as exact reals: rounding, infinities and NaN are outside
  the model. A float division whose divisor can be zero is an error branch of the model.

  The conditionally compiled blocks are left out: \<^verbatim>\<open>GTUNE\<close> calls a tuner that only
  observes the axis, \<^verbatim>\<open>BLACKBOX\<close> copies the three terms into diagnostic arrays.
\<close>

definition s32 :: "int \<Rightarrow> int" where
  "s32 x = (x + 2147483648) mod 4294967296 - 2147483648"

definition s16 :: "int \<Rightarrow> int" where
  "s16 x = (x + 32768) mod 65536 - 32768"

definition s8 :: "int \<Rightarrow> int" where
  "s8 x = (x + 128) mod 256 - 128"

text \<open>\<^verbatim>\<open>x >> n\<close> on a signed \<^verbatim>\<open>int\<close>: the arithmetic shift of the compiler.\<close>

definition asr :: "int \<Rightarrow> nat \<Rightarrow> int" where
  "asr x n = x div 2 ^ n"

text \<open>\<^verbatim>\<open>a / b\<close> on \<^verbatim>\<open>int\<close> truncates towards zero; the callers check \<open>b \<noteq> 0\<close>.\<close>

definition cdiv :: "int \<Rightarrow> int \<Rightarrow> int" where
  "cdiv a b = sgn a * sgn b * (\<bar>a\<bar> div \<bar>b\<bar>)"

text \<open>Conversion of a \<^verbatim>\<open>float\<close> to \<^verbatim>\<open>int32_t\<close>: the fraction is discarded.\<close>

definition float_to_int32 :: "real \<Rightarrow> int" where
  "float_to_int32 x = s32 (if 0 \<le> x then \<lfloor>x\<rfloor> else \<lceil>x\<rceil>)"

text \<open>\<^verbatim>\<open>lrintf\<close> of \<^verbatim>\<open>math.h\<close>: the nearest integer, a tie going to the even one.\<close>

definition lrintf :: "real \<Rightarrow> int" where
  "lrintf x =
     (let f = \<lfloor>x\<rfloor>; d = x - of_int f
      in s32 (if d < 1 / 2 then f else if 1 / 2 < d then f + 1
              else if even f then f else f + 1))"

subsection \<open>Helpers of \<^verbatim>\<open>common/maths.h\<close>\<close>

text \<open>
  Modelled from the spec: the magnitude macro \<^verbatim>\<open>ABS\<close> of \<^verbatim>\<open>common/maths.h\<close>, which is
  not among the sources; the negation is an \<^verbatim>\<open>int\<close> operation.
\<close>

definition ABS :: "int \<Rightarrow> int" where
  "ABS x = (if x > 0 then x else s32 (- x))"

text \<open>
  Modelled from the spec: \<^verbatim>\<open>constrain\<close> of \<^verbatim>\<open>common/maths.h\<close>, which is not among the
  sources; it clamps its first argument to the range given by the other two, the lower
  bound being tested first.
\<close>

definition constrain :: "int \<Rightarrow> int \<Rightarrow> int \<Rightarrow> int" where
  "constrain amt low high =
     (if amt < low then low else if amt > high then high else amt)"

text \<open>
  Modelled from the spec: \<^verbatim>\<open>constrainf\<close> of \<^verbatim>\<open>common/maths.h\<close>, which is not among the
  sources; the same clamp on \<^verbatim>\<open>float\<close>.
\<close>

definition constrainf :: "real \<Rightarrow> real \<Rightarrow> real \<Rightarrow> real" where
  "constrainf amt low high =
     (if amt < low then low else if amt > high then high else amt)"

section \<open>Data model\<close>

datatype axis = FD_ROLL | FD_PITCH | FD_YAW

text \<open>
  The gain arrays \<^verbatim>\<open>P8\<close>, \<^verbatim>\<open>I8\<close>, \<^verbatim>\<open>D8\<close> have one entry per PID item; the first three
  items are the axes, \<^verbatim>\<open>PIDLEVEL\<close> is a later one (the enumeration is declared in
  \<^verbatim>\<open>flight/pid.h\<close>; no property below depends on its position).
\<close>

definition axis_index :: "axis \<Rightarrow> nat" where
  "axis_index a = (case a of FD_ROLL \<Rightarrow> 0 | FD_PITCH \<Rightarrow> 1 | FD_YAW \<Rightarrow> 2)"

definition PIDLEVEL :: nat where
  "PIDLEVEL = 7"

record pidProfile_t =
  P8 :: "nat \<Rightarrow> 8 word"
  I8 :: "nat \<Rightarrow> 8 word"
  D8 :: "nat \<Rightarrow> 8 word"
  P_f :: "axis \<Rightarrow> real"
  I_f :: "axis \<Rightarrow> real"
  D_f :: "axis \<Rightarrow> real"
  A_level :: real
  H_level :: real
  H_sensitivity :: "8 word"
  pterm_cut_hz :: "8 word"
  dterm_cut_hz :: "8 word"

record controlRateConfig_t =
  rates :: "axis \<Rightarrow> 8 word"

record rxConfig_t =
  midrc :: "16 word"

text \<open>
  The globals the controller reads and never writes. \<^verbatim>\<open>getRcStickDeflection\<close> of
  \<^verbatim>\<open>io/rc_controls.c\<close> (axis, stick centre; an \<^verbatim>\<open>int32_t\<close>) reads the receiver
  channels: what it returns during the cycle is part of the cycle's input.
\<close>

record globals =
  ANGLE_MODE :: bool
  HORIZON_MODE :: bool
  rcCommand :: "axis \<Rightarrow> 16 word"
  attitude_raw :: "axis \<Rightarrow> 16 word"
  gyroADC :: "axis \<Rightarrow> 16 word"
  gyro_scale :: real
  PIDweight :: "axis \<Rightarrow> 8 word"
  cycleTime :: "16 word"
  dT :: real
  getRcStickDeflection :: "axis \<Rightarrow> 16 word \<Rightarrow> 32 word"

text \<open>
  What the file uses and does not define: the windup constant \<^verbatim>\<open>GYRO_I_MAX\<close> of
  \<^verbatim>\<open>flight/pid.h\<close> and the low-pass filter \<^verbatim>\<open>filterApplyPt1\<close> of
  \<^verbatim>\<open>common/filter.c\<close> (input, filter state, cutoff, dT; it returns the output and the
  new filter state). They are parameters of the model; \<open>'f\<close> is the type of a filter
  state.
\<close>

record 'f externals =
  GYRO_I_MAX :: int
  filterApplyPt1 :: "real \<Rightarrow> 'f \<Rightarrow> 8 word \<Rightarrow> real \<Rightarrow> real \<times> 'f"

datatype pidControllerFunc = PidMultiWiiRewrite | PidLuxFloat

datatype pidControllerType_e =
  PID_CONTROLLER_MWREWRITE | PID_CONTROLLER_LUX_FLOAT | PID_CONTROLLER_OTHER int

text \<open>
  The persistent state of the file: the output array, the two integrators, the selected
  controller, the filter states shared by both controllers, and the function-static
  derivative history of each controller.
\<close>

record 'f pid_state =
  axisPID :: "axis \<Rightarrow> int"
  errorGyroI :: "axis \<Rightarrow> int"
  errorGyroIf :: "axis \<Rightarrow> real"
  pid_controller :: pidControllerFunc
  PTermState :: "axis \<Rightarrow> 'f"
  DTermState :: "axis \<Rightarrow> 'f"
  lux_lastError :: "axis \<Rightarrow> real"
  lux_delta1 :: "axis \<Rightarrow> real"
  lux_delta2 :: "axis \<Rightarrow> real"
  mw_lastError :: "axis \<Rightarrow> int"
  mw_delta1 :: "axis \<Rightarrow> int"
  mw_delta2 :: "axis \<Rightarrow> int"

text \<open>The locals of one pass of the axis loop, kept so that properties can name them.\<close>

record 'a axis_terms =
  t_RateError :: 'a
  t_PTerm :: 'a
  t_ITerm :: 'a
  t_deltaSum :: 'a
  t_DTerm :: 'a

datatype pid_error = DivisionByZero

section \<open>Reset and controller selection\<close>

definition pidResetErrorGyro :: "'f pid_state \<Rightarrow> 'f pid_state" where
  "pidResetErrorGyro st =
     st\<lparr>errorGyroI := (errorGyroI st)(FD_ROLL := 0, FD_PITCH := 0, FD_YAW := 0),
        errorGyroIf := (errorGyroIf st)(FD_ROLL := 0, FD_PITCH := 0, FD_YAW := 0)\<rparr>"

fun pidSetController :: "pidControllerType_e \<Rightarrow> 'f pid_state \<Rightarrow> 'f pid_state" where
  "pidSetController PID_CONTROLLER_LUX_FLOAT st = st\<lparr>pid_controller := PidLuxFloat\<rparr>"
| "pidSetController PID_CONTROLLER_MWREWRITE st = st\<lparr>pid_controller := PidMultiWiiRewrite\<rparr>"
| "pidSetController (PID_CONTROLLER_OTHER n) st = st\<lparr>pid_controller := PidMultiWiiRewrite\<rparr>"

section \<open>Horizon strength\<close>

definition mostDeflectedPos :: "int \<Rightarrow> int \<Rightarrow> int" where
  "mostDeflectedPos stickPosAil stickPosEle =
     (if ABS stickPosAil > ABS stickPosEle then ABS stickPosAil else ABS stickPosEle)"

text \<open>Lines 114 to 119: the float controller's strength, from the largest deflection.\<close>

definition lux_horizonLevelStrength :: "int \<Rightarrow> 8 word \<Rightarrow> real" where
  "lux_horizonLevelStrength deflected sens =
     (let h = real_of_int (s32 (500 - deflected)) / 500
      in if uint sens = 0 then 0
         else constrainf ((h - 1) * real_of_int (100 div uint sens) + 1) 0 1)"

text \<open>
  Lines 237 to 241: the integer controller's strength; the variable is an \<^verbatim>\<open>int8_t\<close>,
  the sensitivity is \<^verbatim>\<open>D8[PIDLEVEL]\<close>.
\<close>

definition mw_horizonLevelStrength :: "int \<Rightarrow> 8 word \<Rightarrow> int" where
  "mw_horizonLevelStrength deflected sens =
     (let h = s8 (cdiv (s32 (500 - deflected)) 5)
      in s8 (constrain
               (cdiv (10 * (h - 100) * cdiv (10 * uint sens) 80) 100 + 100) 0 100))"

definition stick_deflection :: "globals \<Rightarrow> rxConfig_t \<Rightarrow> int" where
  "stick_deflection g rx =
     mostDeflectedPos (sint (getRcStickDeflection g FD_ROLL (midrc rx)))
                      (sint (getRcStickDeflection g FD_PITCH (midrc rx)))"

text \<open>Lines 98 to 120 and 220 to 242: the strength a cycle uses.\<close>

definition lux_strength :: "pidProfile_t \<Rightarrow> rxConfig_t \<Rightarrow> globals \<Rightarrow> real" where
  "lux_strength p rx g =
     (if HORIZON_MODE g
      then lux_horizonLevelStrength (stick_deflection g rx) (H_sensitivity p)
      else 1)"

definition mw_strength :: "pidProfile_t \<Rightarrow> rxConfig_t \<Rightarrow> globals \<Rightarrow> int" where
  "mw_strength p rx g =
     (if HORIZON_MODE g
      then mw_horizonLevelStrength (stick_deflection g rx) (D8 p PIDLEVEL)
      else 100)"

section \<open>The float controller\<close>

text \<open>Lines 125 to 146: the desired rate of an axis.\<close>

definition lux_AngleRate ::
  "pidProfile_t \<Rightarrow> controlRateConfig_t \<Rightarrow> 16 word \<Rightarrow> globals \<Rightarrow> real \<Rightarrow> axis \<Rightarrow> real" where
  "lux_AngleRate p crc max_angle_inclination g horizonLevelStrength a =
     (let rate = uint (rates crc a)
      in if a = FD_YAW
         then real_of_int ((rate + 10) * sint (rcCommand g FD_YAW)) / 50
         else
           let errorAngle =
                 real_of_int
                   (constrain (sint (rcCommand g a)) (- uint max_angle_inclination)
                      (uint max_angle_inclination) - sint (attitude_raw g a)) / 10
           in if ANGLE_MODE g then errorAngle * A_level p
              else
                let AngleRate = real_of_int ((rate + 20) * sint (rcCommand g a)) / 50
                in if HORIZON_MODE g
                   then AngleRate + errorAngle * H_level p * horizonLevelStrength
                   else AngleRate)"

text \<open>Lines 148 to 154: the rate error of an axis.\<close>

definition lux_RateError ::
  "pidProfile_t \<Rightarrow> controlRateConfig_t \<Rightarrow> 16 word \<Rightarrow> globals \<Rightarrow> real \<Rightarrow> axis \<Rightarrow> real" where
  "lux_RateError p crc max_angle_inclination g horizonLevelStrength a =
     (let AngleRate = lux_AngleRate p crc max_angle_inclination g horizonLevelStrength a;
          gyroRate = real_of_int (sint (gyroADC g a)) * gyro_scale g
      in AngleRate - gyroRate)"

text \<open>Lines 156 to 191: the P, I and D terms of one axis and its output.\<close>

definition lux_axis ::
  "'f externals \<Rightarrow> pidProfile_t \<Rightarrow> controlRateConfig_t \<Rightarrow> 16 word \<Rightarrow> globals \<Rightarrow> real
     \<Rightarrow> axis \<Rightarrow> 'f pid_state \<Rightarrow> pid_error + (real axis_terms \<times> 'f pid_state)" where
  "lux_axis x p crc max_angle_inclination g horizonLevelStrength a st =
     (let RateError = lux_RateError p crc max_angle_inclination g horizonLevelStrength a;
          PTerm0 = RateError * P_f p a * real_of_int (uint (PIDweight g a)) / 100;
          (PTerm, PState) =
             (if pterm_cut_hz p \<noteq> 0
              then filterApplyPt1 x PTerm0 (PTermState st a) (pterm_cut_hz p) (dT g)
              else (PTerm0, PTermState st a));
          errI = constrainf (errorGyroIf st a + RateError * dT g * I_f p a * 10) (- 250) 250;
          ITerm = errI;
          delta0 = RateError - lux_lastError st a
      in if dT g = 0 then Inl DivisionByZero
         else
           let delta = delta0 * (1 / dT g);
               deltaSum0 = lux_delta1 st a + lux_delta2 st a + delta;
               (deltaSum, DState) =
                  (if dterm_cut_hz p \<noteq> 0
                   then filterApplyPt1 x deltaSum0 (DTermState st a) (dterm_cut_hz p) (dT g)
                   else (deltaSum0, DTermState st a));
               DTerm = constrainf ((deltaSum / 3) * D_f p a
                                     * real_of_int (uint (PIDweight g a)) / 100) (- 300) 300
           in Inr (\<lparr>t_RateError = RateError, t_PTerm = PTerm, t_ITerm = ITerm,
                     t_deltaSum = deltaSum, t_DTerm = DTerm\<rparr>,
                   st\<lparr>axisPID := (axisPID st)
                          (a := constrain (lrintf (PTerm + ITerm + DTerm)) (- 1000) 1000),
                      errorGyroIf := (errorGyroIf st)(a := errI),
                      PTermState := (PTermState st)(a := PState),
                      DTermState := (DTermState st)(a := DState),
                      lux_lastError := (lux_lastError st)(a := RateError),
                      lux_delta1 := (lux_delta1 st)(a := delta),
                      lux_delta2 := (lux_delta2 st)(a := lux_delta1 st a)\<rparr>))"

text \<open>The loop \<^verbatim>\<open>for (axis = 0; axis < 3; axis++)\<close>: the first error ends the cycle.\<close>

fun axis_loop ::
  "(axis \<Rightarrow> 's \<Rightarrow> pid_error + ('t \<times> 's)) \<Rightarrow> axis list \<Rightarrow> 's \<Rightarrow> pid_error + 's" where
  "axis_loop body [] st = Inr st"
| "axis_loop body (a # as) st =
     (case body a st of Inl e \<Rightarrow> Inl e | Inr (t, st') \<Rightarrow> axis_loop body as st')"

definition pidLuxFloat ::
  "'f externals \<Rightarrow> pidProfile_t \<Rightarrow> controlRateConfig_t \<Rightarrow> 16 word \<Rightarrow> rxConfig_t \<Rightarrow> globals
     \<Rightarrow> 'f pid_state \<Rightarrow> pid_error + 'f pid_state" where
  "pidLuxFloat x p crc max_angle_inclination rx g st =
     axis_loop (lux_axis x p crc max_angle_inclination g (lux_strength p rx g))
       [FD_ROLL, FD_PITCH, FD_YAW] st"

section \<open>The integer controller\<close>

text \<open>Lines 246 to 265: the desired rate of an axis.\<close>

definition mw_AngleRateTmp ::
  "pidProfile_t \<Rightarrow> controlRateConfig_t \<Rightarrow> 16 word \<Rightarrow> globals \<Rightarrow> int \<Rightarrow> axis \<Rightarrow> int" where
  "mw_AngleRateTmp p crc max_angle_inclination g horizonLevelStrength a =
     (let rate = uint (rates crc a)
      in if a = FD_YAW
         then asr ((rate + 27) * sint (rcCommand g FD_YAW)) 5
         else
           let errorAngle =
                 constrain (2 * sint (rcCommand g a)) (- uint max_angle_inclination)
                   (uint max_angle_inclination) - sint (attitude_raw g a)
           in if \<not> ANGLE_MODE g
              then
                let AngleRateTmp = asr ((rate + 27) * sint (rcCommand g a)) 4
                in if HORIZON_MODE g
                   then s32 (AngleRateTmp
                          + asr (cdiv (s32 (errorAngle * uint (I8 p PIDLEVEL)
                                             * horizonLevelStrength)) 100) 4)
                   else AngleRateTmp
              else asr (errorAngle * uint (P8 p PIDLEVEL)) 4)"

text \<open>Line 271: the rate error of an axis.\<close>

definition mw_RateError ::
  "pidProfile_t \<Rightarrow> controlRateConfig_t \<Rightarrow> 16 word \<Rightarrow> globals \<Rightarrow> int \<Rightarrow> axis \<Rightarrow> int" where
  "mw_RateError p crc max_angle_inclination g horizonLevelStrength a =
     (let AngleRateTmp = mw_AngleRateTmp p crc max_angle_inclination g horizonLevelStrength a
      in s32 (AngleRateTmp - cdiv (sint (gyroADC g a)) 4))"

text \<open>Lines 273 to 313: the P, I and D terms of one axis and its output.\<close>

definition mw_axis ::
  "'f externals \<Rightarrow> pidProfile_t \<Rightarrow> controlRateConfig_t \<Rightarrow> 16 word \<Rightarrow> globals \<Rightarrow> int
     \<Rightarrow> axis \<Rightarrow> 'f pid_state \<Rightarrow> pid_error + (int axis_terms \<times> 'f pid_state)" where
  "mw_axis x p crc max_angle_inclination g horizonLevelStrength a st =
     (let RateError = mw_RateError p crc max_angle_inclination g horizonLevelStrength a;
          PTerm0 = asr (cdiv (s32 (s32 (RateError * uint (P8 p (axis_index a)))
                                     * uint (PIDweight g a))) 100) 7;
          (PTerm, PState) =
             (if pterm_cut_hz p \<noteq> 0
              then (let (y, fs) = filterApplyPt1 x (real_of_int PTerm0) (PTermState st a)
                                    (pterm_cut_hz p) (dT g)
                    in (float_to_int32 y, fs))
              else (PTerm0, PTermState st a));
          errI0 = s32 (errorGyroI st a
                       + s32 (asr (s32 (RateError * uint (cycleTime g))) 11
                              * uint (I8 p (axis_index a))));
          errI = constrain errI0 (s32 (s32 (- GYRO_I_MAX x) * 2 ^ 13))
                                 (s32 (GYRO_I_MAX x * 2 ^ 13));
          ITerm = asr errI 13;
          delta0 = s32 (RateError - mw_lastError st a)
      in if asr (uint (cycleTime g)) 4 = 0 then Inl DivisionByZero
         else
           let delta = asr (s32 (delta0 * cdiv 65535 (asr (uint (cycleTime g)) 4))) 6;
               deltaSum0 = s32 (s32 (mw_delta1 st a + mw_delta2 st a) + delta);
               (deltaSum, DState) =
                  (if dterm_cut_hz p \<noteq> 0
                   then (let (y, fs) = filterApplyPt1 x (real_of_int deltaSum0)
                                         (DTermState st a) (dterm_cut_hz p) (dT g)
                         in (float_to_int32 y, fs))
                   else (deltaSum0, DTermState st a));
               DTerm = asr (cdiv (s32 (s32 (deltaSum * uint (D8 p (axis_index a)))
                                        * uint (PIDweight g a))) 100) 8
           in Inr (\<lparr>t_RateError = RateError, t_PTerm = PTerm, t_ITerm = ITerm,
                     t_deltaSum = deltaSum, t_DTerm = DTerm\<rparr>,
                   st\<lparr>axisPID := (axisPID st)(a := s16 (s32 (s32 (PTerm + ITerm) + DTerm))),
                      errorGyroI := (errorGyroI st)(a := errI),
                      PTermState := (PTermState st)(a := PState),
                      DTermState := (DTermState st)(a := DState),
                      mw_lastError := (mw_lastError st)(a := RateError),
                      mw_delta1 := (mw_delta1 st)(a := delta),
                      mw_delta2 := (mw_delta2 st)(a := mw_delta1 st a)\<rparr>))"

definition pidMultiWiiRewrite ::
  "'f externals \<Rightarrow> pidProfile_t \<Rightarrow> controlRateConfig_t \<Rightarrow> 16 word \<Rightarrow> rxConfig_t \<Rightarrow> globals
     \<Rightarrow> 'f pid_state \<Rightarrow> pid_error + 'f pid_state" where
  "pidMultiWiiRewrite x p crc max_angle_inclination rx g st =
     axis_loop (mw_axis x p crc max_angle_inclination g (mw_strength p rx g))
       [FD_ROLL, FD_PITCH, FD_YAW] st"

section \<open>Cycles, resets and selections in sequence\<close>

text \<open>
  The scheduler calls the selected controller through \<^verbatim>\<open>pid_controller\<close> once per
  cycle; resets and selections happen between cycles.
\<close>

definition pid_cycle ::
  "'f externals \<Rightarrow> pidProfile_t \<Rightarrow> controlRateConfig_t \<Rightarrow> 16 word \<Rightarrow> rxConfig_t \<Rightarrow> globals
     \<Rightarrow> 'f pid_state \<Rightarrow> pid_error + 'f pid_state" where
  "pid_cycle x p crc max_angle_inclination rx g st =
     (case pid_controller st of
        PidMultiWiiRewrite \<Rightarrow> pidMultiWiiRewrite x p crc max_angle_inclination rx g st
      | PidLuxFloat \<Rightarrow> pidLuxFloat x p crc max_angle_inclination rx g st)"

datatype pid_op =
  Reset
| SetController pidControllerType_e
| Cycle pidProfile_t controlRateConfig_t "16 word" rxConfig_t globals

fun pid_op_step :: "'f externals \<Rightarrow> pid_op \<Rightarrow> 'f pid_state \<Rightarrow> pid_error + 'f pid_state" where
  "pid_op_step x Reset st = Inr (pidResetErrorGyro st)"
| "pid_op_step x (SetController t) st = Inr (pidSetController t st)"
| "pid_op_step x (Cycle p crc m rx g) st = pid_cycle x p crc m rx g st"

fun run_ops :: "'f externals \<Rightarrow> pid_op list \<Rightarrow> 'f pid_state \<Rightarrow> pid_error + 'f pid_state" where
  "run_ops x [] st = Inr st"
| "run_ops x (c # cs) st =
     (case pid_op_step x c st of Inl e \<Rightarrow> Inl e | Inr st' \<Rightarrow> run_ops x cs st')"

section \<open>Configuration constraints and test inputs\<close>

text \<open>
  The windup limit \<^verbatim>\<open>GYRO_I_MAX << 13\<close> is a non-negative \<^verbatim>\<open>int32_t\<close> exactly when
  the constant is non-negative and below \<open>2 ^ 18\<close>.
\<close>

definition windup_ok :: "'f externals \<Rightarrow> bool" where
  "windup_ok x = (0 \<le> GYRO_I_MAX x \<and> GYRO_I_MAX x < 262144)"

text \<open>The state at power-on: every static of the file is zero-initialised.\<close>

definition power_on :: "'f \<Rightarrow> 'f pid_state" where
  "power_on f0 =
     \<lparr>axisPID = (\<lambda>_. 0), errorGyroI = (\<lambda>_. 0), errorGyroIf = (\<lambda>_. 0),
      pid_controller = PidMultiWiiRewrite,
      PTermState = (\<lambda>_. f0), DTermState = (\<lambda>_. f0),
      lux_lastError = (\<lambda>_. 0), lux_delta1 = (\<lambda>_. 0), lux_delta2 = (\<lambda>_. 0),
      mw_lastError = (\<lambda>_. 0), mw_delta1 = (\<lambda>_. 0), mw_delta2 = (\<lambda>_. 0)\<rparr>"

text \<open>
  A bench configuration used to run the model: a pass-through filter without state, full
  stick on every axis, a level craft at rest, a 2048 microsecond cycle.
\<close>

definition bench_externals :: "unit externals" where
  "bench_externals = \<lparr>GYRO_I_MAX = 256, filterApplyPt1 = (\<lambda>input fs cut dt. (input, fs))\<rparr>"

definition bench_profile :: pidProfile_t where
  "bench_profile =
     \<lparr>P8 = (\<lambda>_. 40), I8 = (\<lambda>_. 30), D8 = (\<lambda>_. 23),
      P_f = (\<lambda>_. 2), I_f = (\<lambda>_. 1), D_f = (\<lambda>_. 1 / 10),
      A_level = 5, H_level = 3, H_sensitivity = 75,
      pterm_cut_hz = 0, dterm_cut_hz = 0\<rparr>"

definition bench_rates :: controlRateConfig_t where
  "bench_rates = \<lparr>rates = (\<lambda>_. 100)\<rparr>"

definition bench_rx :: rxConfig_t where
  "bench_rx = \<lparr>midrc = 1500\<rparr>"

definition bench_globals :: globals where
  "bench_globals =
     \<lparr>ANGLE_MODE = False, HORIZON_MODE = False,
      rcCommand = (\<lambda>_. 500), attitude_raw = (\<lambda>_. 0), gyroADC = (\<lambda>_. 0),
      gyro_scale = 1 / 4, PIDweight = (\<lambda>_. 100), cycleTime = 2048, dT = 1 / 500,
      getRcStickDeflection = (\<lambda>a mid. 500)\<rparr>"

definition stalled_globals :: globals where
  "stalled_globals = bench_globals\<lparr>cycleTime := 15, dT := 0\<rparr>"

text \<open>The windup bound on both integrators, over the three axes.\<close>

definition integrators_bounded :: "'f externals \<Rightarrow> 'f pid_state \<Rightarrow> bool" where
  "integrators_bounded x st =
     list_all (\<lambda>a. \<bar>errorGyroI st a\<bar> \<le> GYRO_I_MAX x * 2 ^ 13 \<and> \<bar>errorGyroIf st a\<bar> \<le> 250)
       [FD_ROLL, FD_PITCH, FD_YAW]"

text \<open>
  Inputs that saturate both integrators in one cycle (largest I gain, a long cycle), and
  a sequence that runs both controllers on them, with a reset and a selection in between.
\<close>

definition saturating_profile :: pidProfile_t where
  "saturating_profile = bench_profile\<lparr>I8 := (\<lambda>_. 255), I_f := (\<lambda>_. 100)\<rparr>"

definition saturating_globals :: globals where
  "saturating_globals = bench_globals\<lparr>cycleTime := 8192\<rparr>"

definition saturating_ops :: "pid_op list" where
  "saturating_ops =
     [Cycle saturating_profile bench_rates 500 bench_rx saturating_globals,
      Reset,
      Cycle saturating_profile bench_rates 500 bench_rx saturating_globals,
      SetController PID_CONTROLLER_LUX_FLOAT,
      Cycle saturating_profile bench_rates 500 bench_rx saturating_globals]"

text \<open>
  Further inputs: sticks centred with the craft at rest, integrators at their limits,
  horizon mode with the sticks at full deflection and with the sticks centred.
\<close>

definition idle_globals :: globals where
  "idle_globals = bench_globals\<lparr>rcCommand := (\<lambda>_. 0)\<rparr>"

definition wound_up :: "unit pid_state" where
  "wound_up = (power_on ())\<lparr>errorGyroI := (\<lambda>_. 2097152), errorGyroIf := (\<lambda>_. 250)\<rparr>"

definition horizon_globals :: globals where
  "horizon_globals = bench_globals\<lparr>HORIZON_MODE := True\<rparr>"

definition centred_globals :: globals where
  "centred_globals = horizon_globals\<lparr>getRcStickDeflection := (\<lambda>a mid. 0)\<rparr>"

section \<open>Observations and the derivative term as the specification words it\<close>

text \<open>What a pass computed and what a cycle wrote, when they complete.\<close>

definition pass_terms :: "pid_error + ('a axis_terms \<times> 's) \<Rightarrow> 'a axis_terms option" where
  "pass_terms r = (case r of Inl e \<Rightarrow> None | Inr (t, st) \<Rightarrow> Some t)"

definition cycle_output :: "pid_error + 'f pid_state \<Rightarrow> axis \<Rightarrow> int option" where
  "cycle_output r a = (case r of Inl e \<Rightarrow> None | Inr st \<Rightarrow> Some (axisPID st a))"

definition output_clamped :: "'f pid_state \<Rightarrow> axis \<Rightarrow> bool" where
  "output_clamped st a = (- 1000 \<le> axisPID st a \<and> axisPID st a \<le> 1000)"

text \<open>
  The specification's integer D term: the moving sum is divided by 3, and the average is
  multiplied by the D gain and the weight factor (with the scaling of line 310).
\<close>

definition spec_mw_DTerm :: "int \<Rightarrow> int \<Rightarrow> int \<Rightarrow> int" where
  "spec_mw_DTerm deltaSum gain weight =
     asr (cdiv (s32 (s32 (cdiv deltaSum 3 * gain) * weight)) 100) 8"

text \<open>
  The specification's float D term: the averaged sum is clamped to the fixed range, and
  the clamped value is multiplied by the D gain and the weight factor.
\<close>

definition spec_lux_DTerm :: "real \<Rightarrow> real \<Rightarrow> real \<Rightarrow> real" where
  "spec_lux_DTerm deltaSum gain weight =
     constrainf (deltaSum / 3) (- 300) 300 * gain * weight / 100"

section \<open>Unfolding the model on concrete inputs\<close>

lemmas bench_defs =
  bench_externals_def bench_profile_def bench_rates_def bench_rx_def bench_globals_def
  power_on_def idle_globals_def wound_up_def horizon_globals_def centred_globals_def

lemmas saturating_defs =
  saturating_profile_def saturating_globals_def saturating_ops_def

lemmas struct_defs =
  pidMultiWiiRewrite_def pidLuxFloat_def mw_axis_def lux_axis_def mw_RateError_def
  lux_RateError_def mw_AngleRateTmp_def lux_AngleRate_def mw_strength_def lux_strength_def
  pid_cycle_def pidResetErrorGyro_def axis_index_def Let_def

lemmas arith_defs =
  s32_def s16_def s8_def asr_def cdiv_def constrain_def constrainf_def lrintf_def ABS_def

section \<open>Arithmetic facts\<close>

lemma s32_id: "- 2147483648 \<le> x \<Longrightarrow> x < 2147483648 \<Longrightarrow> s32 x = x"
  by (simp add: s32_def)

lemma s32_0 [simp]: "s32 0 = 0"
  by (simp add: s32_def)

lemma asr_0 [simp]: "asr 0 n = 0"
  by (simp add: asr_def)

lemma asr4_zero: "0 \<le> x \<Longrightarrow> asr x 4 = 0 \<longleftrightarrow> x < 16"
  by (auto simp: asr_def zdiv_eq_0_iff)

lemma constrain_bounds:
  "low \<le> high \<Longrightarrow> low \<le> constrain amt low high \<and> constrain amt low high \<le> high"
  by (simp add: constrain_def)

lemma constrainf_bounds:
  "low \<le> high \<Longrightarrow> low \<le> constrainf amt low high \<and> constrainf amt low high \<le> high"
  by (simp add: constrainf_def)

lemma windup_limits:
  assumes "windup_ok x"
  shows "s32 (GYRO_I_MAX x * 2 ^ 13) = GYRO_I_MAX x * 8192"
    and "s32 (s32 (- GYRO_I_MAX x) * 2 ^ 13) = - (GYRO_I_MAX x * 8192)"
proof -
  from assms have b: "0 \<le> GYRO_I_MAX x" "GYRO_I_MAX x < 262144"
    by (simp_all add: windup_ok_def)
  then show "s32 (GYRO_I_MAX x * 2 ^ 13) = GYRO_I_MAX x * 8192"
    by (simp add: s32_id)
  from b have "s32 (- GYRO_I_MAX x) = - GYRO_I_MAX x"
    by (simp add: s32_id)
  with b show "s32 (s32 (- GYRO_I_MAX x) * 2 ^ 13) = - (GYRO_I_MAX x * 8192)"
    by (simp add: s32_id)
qed

section \<open>The axis loop\<close>

lemma axis_loop3:
  "axis_loop body [FD_ROLL, FD_PITCH, FD_YAW] st = Inr st' \<longleftrightarrow>
     (\<exists>t1 s1 t2 s2 t3. body FD_ROLL st = Inr (t1, s1) \<and> body FD_PITCH s1 = Inr (t2, s2)
        \<and> body FD_YAW s2 = Inr (t3, st'))"
  by (auto split: sum.splits)

section \<open>When a pass completes\<close>

lemma mw_axis_returns:
  "16 \<le> uint (cycleTime g) \<Longrightarrow> \<exists>t st'. mw_axis x p crc m g h a st = Inr (t, st')"
  using asr4_zero [of "uint (cycleTime g)"]
  by (simp add: mw_axis_def Let_def split: prod.splits)

lemma mw_axis_traps:
  "uint (cycleTime g) < 16 \<Longrightarrow> mw_axis x p crc m g h a st = Inl DivisionByZero"
  using asr4_zero [of "uint (cycleTime g)"]
  by (simp add: mw_axis_def Let_def split: prod.splits)

lemma lux_axis_returns:
  "dT g \<noteq> 0 \<Longrightarrow> \<exists>t st'. lux_axis x p crc m g h a st = Inr (t, st')"
  by (simp add: lux_axis_def Let_def split: prod.splits)

lemma lux_axis_traps:
  "dT g = 0 \<Longrightarrow> lux_axis x p crc m g h a st = Inl DivisionByZero"
  by (simp add: lux_axis_def Let_def split: prod.splits)

lemma pidMultiWiiRewrite_returns:
  assumes "16 \<le> uint (cycleTime g)"
  shows "\<exists>st'. pidMultiWiiRewrite x p crc m rx g st = Inr st'"
proof -
  let ?body = "mw_axis x p crc m g (mw_strength p rx g)"
  obtain t1 s1 where 1: "?body FD_ROLL st = Inr (t1, s1)"
    using mw_axis_returns [OF assms] by blast
  obtain t2 s2 where 2: "?body FD_PITCH s1 = Inr (t2, s2)"
    using mw_axis_returns [OF assms] by blast
  obtain t3 s3 where 3: "?body FD_YAW s2 = Inr (t3, s3)"
    using mw_axis_returns [OF assms] by blast
  from 1 2 3 show ?thesis
    by (simp add: pidMultiWiiRewrite_def)
qed

lemma pidLuxFloat_returns:
  assumes "dT g \<noteq> 0"
  shows "\<exists>st'. pidLuxFloat x p crc m rx g st = Inr st'"
proof -
  let ?body = "lux_axis x p crc m g (lux_strength p rx g)"
  obtain t1 s1 where 1: "?body FD_ROLL st = Inr (t1, s1)"
    using lux_axis_returns [OF assms] by blast
  obtain t2 s2 where 2: "?body FD_PITCH s1 = Inr (t2, s2)"
    using lux_axis_returns [OF assms] by blast
  obtain t3 s3 where 3: "?body FD_YAW s2 = Inr (t3, s3)"
    using lux_axis_returns [OF assms] by blast
  from 1 2 3 show ?thesis
    by (simp add: pidLuxFloat_def)
qed

section \<open>The integrators stay within the windup limit\<close>

lemma all_axes: "(\<forall>a. P a) \<longleftrightarrow> P FD_ROLL \<and> P FD_PITCH \<and> P FD_YAW"
  by (metis axis.exhaust)

lemma integrators_bounded_iff:
  "integrators_bounded x st \<longleftrightarrow>
     (\<forall>a. \<bar>errorGyroI st a\<bar> \<le> GYRO_I_MAX x * 8192 \<and> \<bar>errorGyroIf st a\<bar> \<le> 250)"
  by (simp add: integrators_bounded_def all_axes)

lemma reset_arrays:
  "f(FD_ROLL := z, FD_PITCH := z, FD_YAW := z) = (\<lambda>_. z)"
proof
  fix a show "(f(FD_ROLL := z, FD_PITCH := z, FD_YAW := z)) a = z"
    by (cases a) simp_all
qed

lemma pidResetErrorGyro_eq:
  "pidResetErrorGyro st = st\<lparr>errorGyroI := (\<lambda>_. 0), errorGyroIf := (\<lambda>_. 0)\<rparr>"
  by (simp add: pidResetErrorGyro_def reset_arrays)

lemma mw_axis_errorGyroI:
  assumes "mw_axis x p crc m g h a st = Inr (t, st')"
  shows "errorGyroI st' =
           (errorGyroI st)(a := constrain
              (s32 (errorGyroI st a + s32 (asr (s32 (mw_RateError p crc m g h a * uint (cycleTime g))) 11
                                            * uint (I8 p (axis_index a)))))
              (s32 (s32 (- GYRO_I_MAX x) * 2 ^ 13)) (s32 (GYRO_I_MAX x * 2 ^ 13)))"
    and "t_ITerm t = asr (errorGyroI st' a) 13"
    and "t_RateError t = mw_RateError p crc m g h a"
    and "errorGyroIf st' = errorGyroIf st"
  using assms
  by (auto simp: mw_axis_def Let_def split: if_splits prod.splits)

lemma lux_axis_errorGyroIf:
  assumes "lux_axis x p crc m g h a st = Inr (t, st')"
  shows "errorGyroIf st' =
           (errorGyroIf st)(a := constrainf
              (errorGyroIf st a + lux_RateError p crc m g h a * dT g * I_f p a * 10) (- 250) 250)"
    and "t_ITerm t = errorGyroIf st' a"
    and "t_RateError t = lux_RateError p crc m g h a"
    and "errorGyroI st' = errorGyroI st"
  using assms
  by (auto simp: lux_axis_def Let_def split: if_splits prod.splits)

lemma lux_axis_axisPID:
  assumes "lux_axis x p crc m g h a st = Inr (t, st')"
  shows "axisPID st' =
           (axisPID st)(a := constrain (lrintf (t_PTerm t + t_ITerm t + t_DTerm t)) (- 1000) 1000)"
  using assms
  by (auto simp: lux_axis_def Let_def split: if_splits prod.splits)

lemma mw_axis_axisPID:
  assumes "mw_axis x p crc m g h a st = Inr (t, st')"
  shows "axisPID st' =
           (axisPID st)(a := s16 (s32 (s32 (t_PTerm t + t_ITerm t) + t_DTerm t)))"
  using assms
  by (auto simp: mw_axis_def Let_def split: if_splits prod.splits)

lemma mw_axis_clamps:
  assumes "windup_ok x" and "mw_axis x p crc m g h a st = Inr (t, st')"
  shows "\<bar>errorGyroI st' a\<bar> \<le> GYRO_I_MAX x * 8192"
proof -
  let ?L = "GYRO_I_MAX x * 8192"
  from assms(1) have "- ?L \<le> ?L"
    by (simp add: windup_ok_def)
  then have "\<bar>constrain amt (- ?L) ?L\<bar> \<le> ?L" for amt
    using constrain_bounds [of "- ?L" ?L amt] by (simp add: abs_le_iff)
  moreover have "\<exists>amt. errorGyroI st' a = constrain amt (- ?L) ?L"
    unfolding mw_axis_errorGyroI(1) [OF assms(2)] windup_limits [OF assms(1)]
    by auto
  ultimately show ?thesis
    by auto
qed

lemma lux_axis_clamps:
  assumes "lux_axis x p crc m g h a st = Inr (t, st')"
  shows "\<bar>errorGyroIf st' a\<bar> \<le> 250"
proof -
  have "\<bar>constrainf amt (- 250) 250\<bar> \<le> 250" for amt
    using constrainf_bounds [of "- 250" 250 amt] by (simp add: abs_le_iff)
  moreover have "\<exists>amt. errorGyroIf st' a = constrainf amt (- 250) 250"
    unfolding lux_axis_errorGyroIf(1) [OF assms]
    by auto
  ultimately show ?thesis
    by auto
qed

lemma mw_axis_bounded:
  assumes "windup_ok x" and "integrators_bounded x st"
    and "mw_axis x p crc m g h a st = Inr (t, st')"
  shows "integrators_bounded x st'"
  unfolding integrators_bounded_iff
proof (intro allI conjI)
  fix b
  show "\<bar>errorGyroI st' b\<bar> \<le> GYRO_I_MAX x * 8192"
  proof (cases "b = a")
    case True
    with mw_axis_clamps [OF assms(1,3)] show ?thesis by simp
  next
    case False
    with assms(2) show ?thesis
      by (simp add: mw_axis_errorGyroI(1) [OF assms(3)] integrators_bounded_iff)
  qed
  from assms(2) show "\<bar>errorGyroIf st' b\<bar> \<le> 250"
    by (simp add: mw_axis_errorGyroI(4) [OF assms(3)] integrators_bounded_iff)
qed

lemma lux_axis_bounded:
  assumes "integrators_bounded x st"
    and "lux_axis x p crc m g h a st = Inr (t, st')"
  shows "integrators_bounded x st'"
  unfolding integrators_bounded_iff
proof (intro allI conjI)
  fix b
  show "\<bar>errorGyroIf st' b\<bar> \<le> 250"
  proof (cases "b = a")
    case True
    with lux_axis_clamps [OF assms(2)] show ?thesis by simp
  next
    case False
    with assms(1) show ?thesis
      by (simp add: lux_axis_errorGyroIf(1) [OF assms(2)] integrators_bounded_iff)
  qed
  from assms(1) show "\<bar>errorGyroI st' b\<bar> \<le> GYRO_I_MAX x * 8192"
    by (simp add: lux_axis_errorGyroIf(4) [OF assms(2)] integrators_bounded_iff)
qed

lemma axis_loop_invariant:
  assumes step: "\<And>a s t s'. I s \<Longrightarrow> body a s = Inr (t, s') \<Longrightarrow> I s'"
  shows "I st \<Longrightarrow> axis_loop body as st = Inr st' \<Longrightarrow> I st'"
proof (induction as arbitrary: st)
  case Nil
  then show ?case by simp
next
  case (Cons a as)
  from Cons.prems(2) obtain t s1 where 1: "body a st = Inr (t, s1)"
    and 2: "axis_loop body as s1 = Inr st'"
    by (auto split: sum.splits)
  from step [OF Cons.prems(1) 1] have "I s1" .
  from Cons.IH [OF this 2] show ?case .
qed

lemma pid_cycle_bounded:
  assumes "windup_ok x" and "integrators_bounded x st"
    and "pid_cycle x p crc m rx g st = Inr st'"
  shows "integrators_bounded x st'"
proof (cases "pid_controller st")
  case PidMultiWiiRewrite
  with assms(3) have "axis_loop (mw_axis x p crc m g (mw_strength p rx g))
      [FD_ROLL, FD_PITCH, FD_YAW] st = Inr st'"
    by (simp add: pid_cycle_def pidMultiWiiRewrite_def)
  with assms(2) show ?thesis
    by (rule axis_loop_invariant [rotated 1]) (rule mw_axis_bounded [OF assms(1)])
next
  case PidLuxFloat
  with assms(3) have "axis_loop (lux_axis x p crc m g (lux_strength p rx g))
      [FD_ROLL, FD_PITCH, FD_YAW] st = Inr st'"
    by (simp add: pid_cycle_def pidLuxFloat_def)
  with assms(2) show ?thesis
    by (rule axis_loop_invariant [rotated 1]) (rule lux_axis_bounded)
qed

lemma pid_op_step_bounded:
  assumes "windup_ok x" and "integrators_bounded x st"
    and "pid_op_step x c st = Inr st'"
  shows "integrators_bounded x st'"
proof (cases c)
  case Reset
  with assms(1,3) show ?thesis
    by (auto simp: integrators_bounded_iff pidResetErrorGyro_eq windup_ok_def)
next
  case (SetController ty)
  with assms(2,3) show ?thesis
    by (cases ty) (auto simp: integrators_bounded_iff)
next
  case (Cycle p crc m rx g)
  with assms show ?thesis
    by (auto intro: pid_cycle_bounded)
qed

lemma run_ops_bounded:
  assumes "windup_ok x"
  shows "integrators_bounded x st \<Longrightarrow> run_ops x cs st = Inr st' \<Longrightarrow> integrators_bounded x st'"
proof (induction cs arbitrary: st)
  case Nil
  then show ?case by simp
next
  case (Cons c cs)
  from Cons.prems(2) obtain s1 where 1: "pid_op_step x c st = Inr s1"
    and 2: "run_ops x cs s1 = Inr st'"
    by (auto split: sum.splits)
  from pid_op_step_bounded [OF assms Cons.prems(1) 1] have "integrators_bounded x s1" .
  from Cons.IH [OF this 2] show ?case .
qed

lemma pidMultiWiiRewrite_errorGyroI:
  assumes "pidMultiWiiRewrite x p crc m rx g s = Inr s'"
  shows "errorGyroI s' a =
           constrain
             (s32 (errorGyroI s a
                   + s32 (asr (s32 (mw_RateError p crc m g (mw_strength p rx g) a
                                     * uint (cycleTime g))) 11
                          * uint (I8 p (axis_index a)))))
             (s32 (s32 (- GYRO_I_MAX x) * 2 ^ 13)) (s32 (GYRO_I_MAX x * 2 ^ 13))"
proof -
  let ?body = "mw_axis x p crc m g (mw_strength p rx g)"
  from assms obtain t1 s1 t2 s2 t3 where 1: "?body FD_ROLL s = Inr (t1, s1)"
    and 2: "?body FD_PITCH s1 = Inr (t2, s2)" and 3: "?body FD_YAW s2 = Inr (t3, s')"
    unfolding pidMultiWiiRewrite_def axis_loop3 by blast
  show ?thesis
    unfolding mw_axis_errorGyroI(1) [OF 3] mw_axis_errorGyroI(1) [OF 2]
      mw_axis_errorGyroI(1) [OF 1]
    by (cases a) simp_all
qed

lemma pidLuxFloat_errorGyroIf:
  assumes "pidLuxFloat x p crc m rx g s = Inr s'"
  shows "errorGyroIf s' a =
           constrainf
             (errorGyroIf s a
              + lux_RateError p crc m g (lux_strength p rx g) a * dT g * I_f p a * 10)
             (- 250) 250"
proof -
  let ?body = "lux_axis x p crc m g (lux_strength p rx g)"
  from assms obtain t1 s1 t2 s2 t3 where 1: "?body FD_ROLL s = Inr (t1, s1)"
    and 2: "?body FD_PITCH s1 = Inr (t2, s2)" and 3: "?body FD_YAW s2 = Inr (t3, s')"
    unfolding pidLuxFloat_def axis_loop3 by blast
  show ?thesis
    unfolding lux_axis_errorGyroIf(1) [OF 3] lux_axis_errorGyroIf(1) [OF 2]
      lux_axis_errorGyroIf(1) [OF 1]
    by (cases a) simp_all
qed

text \<open>
  C2. With a windup constant that fits (\<open>0 \<le> GYRO_I_MAX < 2 ^ 18\<close>), after every
  sequence of cycles, resets and selections that runs from power-on, both integrators of
  every axis are within their limit: \<open>GYRO_I_MAX << 13\<close> for \<open>errorGyroI\<close>, 250 for
  \<open>errorGyroIf\<close>. In a cycle of either controller, and in each pass of its axis loop, the
  value stored in the accumulator is the clamp of the old value plus the increment of the
  cycle; the I term is read from that stored value, and it is the stored value that enters
  the output of the axis.
\<close>

theorem integrators_within_windup:
  assumes "windup_ok x"
  shows "(run_ops x cs (power_on f0) = Inr st' \<longrightarrow>
            \<bar>errorGyroI st' a\<bar> \<le> GYRO_I_MAX x * 2 ^ 13 \<and> \<bar>errorGyroIf st' a\<bar> \<le> 250)
       \<and> (pidMultiWiiRewrite x p crc m rx g s = Inr sm \<longrightarrow>
            errorGyroI sm a =
              constrain
                (s32 (errorGyroI s a
                      + s32 (asr (s32 (mw_RateError p crc m g (mw_strength p rx g) a
                                        * uint (cycleTime g))) 11
                             * uint (I8 p (axis_index a)))))
                (- (GYRO_I_MAX x * 2 ^ 13)) (GYRO_I_MAX x * 2 ^ 13))
       \<and> (pidLuxFloat x p crc m rx g s = Inr sl \<longrightarrow>
            errorGyroIf sl a =
              constrainf
                (errorGyroIf s a
                 + lux_RateError p crc m g (lux_strength p rx g) a * dT g * I_f p a * 10)
                (- 250) 250)
       \<and> (mw_axis x p crc m g h a s = Inr (t, s1) \<longrightarrow>
            errorGyroI s1 a =
              constrain
                (s32 (errorGyroI s a
                      + s32 (asr (s32 (mw_RateError p crc m g h a * uint (cycleTime g))) 11
                             * uint (I8 p (axis_index a)))))
                (- (GYRO_I_MAX x * 2 ^ 13)) (GYRO_I_MAX x * 2 ^ 13)
            \<and> \<bar>errorGyroI s1 a\<bar> \<le> GYRO_I_MAX x * 2 ^ 13
            \<and> t_ITerm t = asr (errorGyroI s1 a) 13
            \<and> axisPID s1 a = s16 (s32 (s32 (t_PTerm t + asr (errorGyroI s1 a) 13) + t_DTerm t)))
       \<and> (lux_axis x p crc m g h' a s = Inr (t', s2) \<longrightarrow>
            errorGyroIf s2 a =
              constrainf (errorGyroIf s a + lux_RateError p crc m g h' a * dT g * I_f p a * 10)
                (- 250) 250
            \<and> \<bar>errorGyroIf s2 a\<bar> \<le> 250
            \<and> t_ITerm t' = errorGyroIf s2 a
            \<and> axisPID s2 a
                = constrain (lrintf (t_PTerm t' + errorGyroIf s2 a + t_DTerm t')) (- 1000) 1000)"
proof (intro conjI impI)
  have lim: "s32 (GYRO_I_MAX x * 2 ^ 13) = GYRO_I_MAX x * 2 ^ 13"
    "s32 (s32 (- GYRO_I_MAX x) * 2 ^ 13) = - (GYRO_I_MAX x * 2 ^ 13)"
    using windup_limits [OF assms] by simp_all
  {
    assume run: "run_ops x cs (power_on f0) = Inr st'"
    from assms have "integrators_bounded x (power_on f0)"
      by (simp add: integrators_bounded_iff power_on_def windup_ok_def)
    from run_ops_bounded [OF assms this run]
    show "\<bar>errorGyroI st' a\<bar> \<le> GYRO_I_MAX x * 2 ^ 13" and "\<bar>errorGyroIf st' a\<bar> \<le> 250"
      by (simp_all add: integrators_bounded_iff)
  }
  {
    assume "pidMultiWiiRewrite x p crc m rx g s = Inr sm"
    from pidMultiWiiRewrite_errorGyroI [OF this, of a, unfolded lim]
    show "errorGyroI sm a =
            constrain
              (s32 (errorGyroI s a
                    + s32 (asr (s32 (mw_RateError p crc m g (mw_strength p rx g) a
                                      * uint (cycleTime g))) 11
                           * uint (I8 p (axis_index a)))))
              (- (GYRO_I_MAX x * 2 ^ 13)) (GYRO_I_MAX x * 2 ^ 13)" .
  }
  {
    assume "pidLuxFloat x p crc m rx g s = Inr sl"
    from pidLuxFloat_errorGyroIf [OF this, of a]
    show "errorGyroIf sl a =
            constrainf
              (errorGyroIf s a
               + lux_RateError p crc m g (lux_strength p rx g) a * dT g * I_f p a * 10)
              (- 250) 250" .
  }
  {
    assume pass: "mw_axis x p crc m g h a s = Inr (t, s1)"
    from mw_axis_errorGyroI(1) [OF pass, unfolded lim]
    show "errorGyroI s1 a =
            constrain
              (s32 (errorGyroI s a
                    + s32 (asr (s32 (mw_RateError p crc m g h a * uint (cycleTime g))) 11
                           * uint (I8 p (axis_index a)))))
              (- (GYRO_I_MAX x * 2 ^ 13)) (GYRO_I_MAX x * 2 ^ 13)"
      by simp
    from mw_axis_clamps [OF assms pass] show "\<bar>errorGyroI s1 a\<bar> \<le> GYRO_I_MAX x * 2 ^ 13"
      by simp
    from pass show i: "t_ITerm t = asr (errorGyroI s1 a) 13"
      by (rule mw_axis_errorGyroI(2))
    from mw_axis_axisPID [OF pass]
    show "axisPID s1 a = s16 (s32 (s32 (t_PTerm t + asr (errorGyroI s1 a) 13) + t_DTerm t))"
      by (simp add: i)
  }
  {
    assume pass: "lux_axis x p crc m g h' a s = Inr (t', s2)"
    from lux_axis_errorGyroIf(1) [OF pass]
    show "errorGyroIf s2 a =
            constrainf (errorGyroIf s a + lux_RateError p crc m g h' a * dT g * I_f p a * 10)
              (- 250) 250"
      by simp
    from pass show "\<bar>errorGyroIf s2 a\<bar> \<le> 250"
      by (rule lux_axis_clamps)
    from pass show i: "t_ITerm t' = errorGyroIf s2 a"
      by (rule lux_axis_errorGyroIf(2))
    from lux_axis_axisPID [OF pass]
    show "axisPID s2 a
            = constrain (lrintf (t_PTerm t' + errorGyroIf s2 a + t_DTerm t')) (- 1000) 1000"
      by (simp add: i)
  }
qed

lemma bench_mw_pass:
  "\<exists>t s1. mw_axis bench_externals bench_profile bench_rates 500 bench_globals 100 FD_ROLL
            (power_on ()) = Inr (t, s1)"
  apply (simp add: bench_defs struct_defs)
  apply (simp add: arith_defs)
  done

lemma bench_lux_pass:
  "\<exists>t s1. lux_axis bench_externals bench_profile bench_rates 500 bench_globals 1 FD_ROLL
            (power_on ()) = Inr (t, s1)"
  by (simp add: bench_defs struct_defs)

lemma saturating_ops_run:
  "\<exists>st'. run_ops bench_externals saturating_ops (power_on ()) = Inr st'
     \<and> errorGyroI st' FD_ROLL = 2097152 \<and> errorGyroIf st' FD_ROLL = 250"
  apply (simp add: saturating_defs bench_defs struct_defs)
  apply (simp add: arith_defs)
  done

lemma saturating_mw_cycle:
  "\<exists>s'. pidMultiWiiRewrite bench_externals saturating_profile bench_rates 500 bench_rx
           saturating_globals (power_on ()) = Inr s' \<and> errorGyroI s' FD_ROLL = 2097152"
  apply (simp add: saturating_defs bench_defs struct_defs)
  apply (simp add: arith_defs)
  done

lemma saturating_lux_cycle:
  "\<exists>s'. pidLuxFloat bench_externals saturating_profile bench_rates 500 bench_rx
           saturating_globals (power_on ()) = Inr s' \<and> errorGyroIf s' FD_ROLL = 250"
  apply (simp add: saturating_defs bench_defs struct_defs)
  apply (simp add: arith_defs)
  done

lemma saturating_mw_pass:
  "\<exists>t s1. mw_axis bench_externals saturating_profile bench_rates 500 saturating_globals 100
             FD_ROLL (power_on ()) = Inr (t, s1)
     \<and> errorGyroI s1 FD_ROLL = 2097152 \<and> t_ITerm t = 256"
  apply (simp add: saturating_defs bench_defs struct_defs)
  apply (simp add: arith_defs)
  done

lemma saturating_lux_pass:
  "\<exists>t s2. lux_axis bench_externals saturating_profile bench_rates 500 saturating_globals 1
             FD_ROLL (power_on ()) = Inr (t, s2)
     \<and> errorGyroIf s2 FD_ROLL = 250 \<and> t_ITerm t = 250"
  apply (simp add: saturating_defs bench_defs struct_defs)
  apply (simp add: arith_defs)
  done

lemma saturating_increments:
  "s32 (errorGyroI (power_on ()) FD_ROLL
        + s32 (asr (s32 (mw_RateError saturating_profile bench_rates 500 saturating_globals
                           (mw_strength saturating_profile bench_rx saturating_globals) FD_ROLL
                         * uint (cycleTime saturating_globals))) 11
               * uint (I8 saturating_profile (axis_index FD_ROLL)))) = 4047360"
  "errorGyroIf (power_on ()) FD_ROLL
     + lux_RateError saturating_profile bench_rates 500 saturating_globals
         (lux_strength saturating_profile bench_rx saturating_globals) FD_ROLL
       * dT saturating_globals * I_f saturating_profile FD_ROLL * 10 = 2400"
   apply (simp_all add: saturating_defs bench_defs struct_defs)
   apply (simp_all add: arith_defs)
  done

theorem integrators_within_windup_witness:
  "windup_ok bench_externals
   \<and> (\<exists>st'. run_ops bench_externals saturating_ops (power_on ()) = Inr st'
          \<and> errorGyroI st' FD_ROLL = 2097152 \<and> errorGyroIf st' FD_ROLL = 250
          \<and> \<bar>errorGyroI st' FD_ROLL\<bar> \<le> 256 * 2 ^ 13 \<and> \<bar>errorGyroIf st' FD_ROLL\<bar> \<le> 250)
   \<and> (\<exists>sm. pidMultiWiiRewrite bench_externals saturating_profile bench_rates 500 bench_rx
              saturating_globals (power_on ()) = Inr sm
          \<and> errorGyroI sm FD_ROLL = constrain 4047360 (- (256 * 2 ^ 13)) (256 * 2 ^ 13)
          \<and> errorGyroI sm FD_ROLL = 2097152)
   \<and> (\<exists>sl. pidLuxFloat bench_externals saturating_profile bench_rates 500 bench_rx
              saturating_globals (power_on ()) = Inr sl
          \<and> errorGyroIf sl FD_ROLL = constrainf 2400 (- 250) 250
          \<and> errorGyroIf sl FD_ROLL = 250)
   \<and> (\<exists>t s1. mw_axis bench_externals saturating_profile bench_rates 500 saturating_globals
                 100 FD_ROLL (power_on ()) = Inr (t, s1)
          \<and> errorGyroI s1 FD_ROLL = 2097152
          \<and> \<bar>errorGyroI s1 FD_ROLL\<bar> \<le> 256 * 2 ^ 13
          \<and> t_ITerm t = asr (errorGyroI s1 FD_ROLL) 13 \<and> t_ITerm t = 256
          \<and> axisPID s1 FD_ROLL
              = s16 (s32 (s32 (t_PTerm t + asr (errorGyroI s1 FD_ROLL) 13) + t_DTerm t)))
   \<and> (\<exists>t s2. lux_axis bench_externals saturating_profile bench_rates 500 saturating_globals
                 1 FD_ROLL (power_on ()) = Inr (t, s2)
          \<and> errorGyroIf s2 FD_ROLL = 250
          \<and> \<bar>errorGyroIf s2 FD_ROLL\<bar> \<le> 250
          \<and> t_ITerm t = errorGyroIf s2 FD_ROLL \<and> t_ITerm t = 250
          \<and> axisPID s2 FD_ROLL
              = constrain (lrintf (t_PTerm t + errorGyroIf s2 FD_ROLL + t_DTerm t))
                  (- 1000) 1000)"
proof -
  have w: "windup_ok bench_externals"
    by (simp add: windup_ok_def bench_externals_def)
  have g: "GYRO_I_MAX bench_externals = 256"
    by (simp add: bench_externals_def)
  obtain st' where 1: "run_ops bench_externals saturating_ops (power_on ()) = Inr st'"
    and v1: "errorGyroI st' FD_ROLL = 2097152" "errorGyroIf st' FD_ROLL = 250"
    using saturating_ops_run by blast
  obtain sm where 2: "pidMultiWiiRewrite bench_externals saturating_profile bench_rates 500
      bench_rx saturating_globals (power_on ()) = Inr sm"
    and v2: "errorGyroI sm FD_ROLL = 2097152"
    using saturating_mw_cycle by blast
  obtain sl where 3: "pidLuxFloat bench_externals saturating_profile bench_rates 500
      bench_rx saturating_globals (power_on ()) = Inr sl"
    and v3: "errorGyroIf sl FD_ROLL = 250"
    using saturating_lux_cycle by blast
  obtain t s1 where 4: "mw_axis bench_externals saturating_profile bench_rates 500
      saturating_globals 100 FD_ROLL (power_on ()) = Inr (t, s1)"
    and v4: "errorGyroI s1 FD_ROLL = 2097152" "t_ITerm t = 256"
    using saturating_mw_pass by blast
  obtain t' s2 where 5: "lux_axis bench_externals saturating_profile bench_rates 500
      saturating_globals 1 FD_ROLL (power_on ()) = Inr (t', s2)"
    and v5: "errorGyroIf s2 FD_ROLL = 250" "t_ITerm t' = 250"
    using saturating_lux_pass by blast
  note th = integrators_within_windup [OF w, of saturating_ops "()" st' FD_ROLL
      saturating_profile bench_rates 500 bench_rx saturating_globals "power_on ()" sm sl
      100 t s1 1 t' s2, unfolded g saturating_increments]
  from th 1 have a: "\<bar>errorGyroI st' FD_ROLL\<bar> \<le> 256 * 2 ^ 13 \<and> \<bar>errorGyroIf st' FD_ROLL\<bar> \<le> 250"
    by blast
  from th 2 have b: "errorGyroI sm FD_ROLL = constrain 4047360 (- (256 * 2 ^ 13)) (256 * 2 ^ 13)"
    by blast
  from th 3 have c: "errorGyroIf sl FD_ROLL = constrainf 2400 (- 250) 250"
    by blast
  from th 4 have d: "\<bar>errorGyroI s1 FD_ROLL\<bar> \<le> 256 * 2 ^ 13"
    "t_ITerm t = asr (errorGyroI s1 FD_ROLL) 13"
    "axisPID s1 FD_ROLL = s16 (s32 (s32 (t_PTerm t + asr (errorGyroI s1 FD_ROLL) 13) + t_DTerm t))"
    by blast+
  from th 5 have e: "\<bar>errorGyroIf s2 FD_ROLL\<bar> \<le> 250"
    "t_ITerm t' = errorGyroIf s2 FD_ROLL"
    "axisPID s2 FD_ROLL
       = constrain (lrintf (t_PTerm t' + errorGyroIf s2 FD_ROLL + t_DTerm t')) (- 1000) 1000"
    by blast+
  from w 1 v1 2 v2 3 v3 4 v4 5 v5 a b c d e show ?thesis
    by blast
qed

section \<open>The output range\<close>

lemma lux_axis_output_clamped:
  assumes "lux_axis x p crc m g h a st = Inr (t, st')"
  shows "output_clamped st' a" and "b \<noteq> a \<Longrightarrow> output_clamped st' b = output_clamped st b"
  using constrain_bounds [of "- 1000" 1000]
  by (simp_all add: output_clamped_def lux_axis_axisPID [OF assms])

lemma pidLuxFloat_output_clamped:
  assumes "pidLuxFloat x p crc m rx g st = Inr st'"
  shows "output_clamped st' a"
proof -
  let ?body = "lux_axis x p crc m g (lux_strength p rx g)"
  from assms obtain t1 s1 t2 s2 t3 where 1: "?body FD_ROLL st = Inr (t1, s1)"
    and 2: "?body FD_PITCH s1 = Inr (t2, s2)" and 3: "?body FD_YAW s2 = Inr (t3, st')"
    unfolding pidLuxFloat_def axis_loop3 by blast
  show ?thesis
  proof (cases a)
    case FD_ROLL
    then show ?thesis
      using lux_axis_output_clamped(1) [OF 1]
        lux_axis_output_clamped(2) [OF 2, of FD_ROLL] lux_axis_output_clamped(2) [OF 3, of FD_ROLL]
      by simp
  next
    case FD_PITCH
    then show ?thesis
      using lux_axis_output_clamped(1) [OF 2] lux_axis_output_clamped(2) [OF 3, of FD_PITCH]
      by simp
  next
    case FD_YAW
    then show ?thesis
      using lux_axis_output_clamped(1) [OF 3] by simp
  qed
qed

lemma bench_mw_cycle_roll:
  "cycle_output (pidMultiWiiRewrite bench_externals bench_profile bench_rates 500 bench_rx
     bench_globals (power_on ())) FD_ROLL = Some 4100"
  apply (simp add: cycle_output_def bench_defs struct_defs)
  apply (simp add: arith_defs)
  done

text \<open>
  C1, as stated, fails for the integer controller: line 313 stores the sum of the three
  terms without a clamp. From power-on, with P gain 40, I gain 30, D gain 23, rate 100
  and the roll stick at 500, one cycle writes 4100 to \<open>axisPID[ROLL]\<close>.
\<close>

theorem integer_output_counterexample:
  "cycle_output (pidMultiWiiRewrite bench_externals bench_profile bench_rates 500 bench_rx
     bench_globals (power_on ())) FD_ROLL = Some 4100 \<and> \<not> (4100 \<le> (1000 :: int))"
  using bench_mw_cycle_roll by simp

text \<open>
  C1, amended. After a cycle of the float controller every \<open>axisPID[axis]\<close> is within
  \<open>[-1000, 1000]\<close>: the sum is rounded by \<open>lrintf\<close> and clamped. A pass of the integer
  controller stores the 32-bit sum of its three terms, converted to \<open>int16_t\<close>, unclamped.
\<close>

theorem float_output_clamped:
  "(pidLuxFloat x p crc m rx g st = Inr st' \<longrightarrow> - 1000 \<le> axisPID st' a \<and> axisPID st' a \<le> 1000)
   \<and> (mw_axis x p crc m g h a s = Inr (t, s1) \<longrightarrow>
         axisPID s1 a = s16 (s32 (s32 (t_PTerm t + t_ITerm t) + t_DTerm t)))"
  using pidLuxFloat_output_clamped [of x p crc m rx g st st' a]
  by (auto simp: output_clamped_def mw_axis_axisPID)

theorem float_output_clamped_witness:
  "(\<exists>st'. pidLuxFloat bench_externals bench_profile bench_rates 500 bench_rx bench_globals
            (power_on ()) = Inr st'
          \<and> - 1000 \<le> axisPID st' FD_ROLL \<and> axisPID st' FD_ROLL \<le> 1000)
   \<and> (\<exists>t s1. mw_axis bench_externals bench_profile bench_rates 500 bench_globals 100 FD_ROLL
                 (power_on ()) = Inr (t, s1)
          \<and> axisPID s1 FD_ROLL = s16 (s32 (s32 (t_PTerm t + t_ITerm t) + t_DTerm t)))"
proof -
  have "dT bench_globals \<noteq> 0"
    by (simp add: bench_globals_def)
  then obtain st' where 1: "pidLuxFloat bench_externals bench_profile bench_rates 500 bench_rx
      bench_globals (power_on ()) = Inr st'"
    using pidLuxFloat_returns by blast
  obtain t s1 where 2: "mw_axis bench_externals bench_profile bench_rates 500 bench_globals
      100 FD_ROLL (power_on ()) = Inr (t, s1)"
    using bench_mw_pass by blast
  note th = float_output_clamped [of bench_externals bench_profile bench_rates 500 bench_rx
      bench_globals "power_on ()" st' FD_ROLL 100 "power_on ()" t s1]
  from th 1 have a: "- 1000 \<le> axisPID st' FD_ROLL \<and> axisPID st' FD_ROLL \<le> 1000"
    by blast
  from th 2 have b: "axisPID s1 FD_ROLL = s16 (s32 (s32 (t_PTerm t + t_ITerm t) + t_DTerm t))"
    by blast
  from 1 2 a b show ?thesis
    by blast
qed

section \<open>Reset\<close>

lemma constrain_zero: "low \<le> 0 \<Longrightarrow> 0 \<le> high \<Longrightarrow> constrain 0 low high = 0"
  by (simp add: constrain_def)

lemma mw_axis_zero_error:
  assumes "windup_ok x" and "mw_RateError p crc m g h a = 0" and "errorGyroI st a = 0"
    and "mw_axis x p crc m g h b st = Inr (t, st')"
  shows "errorGyroI st' a = 0"
proof (cases "a = b")
  case True
  from assms(1) have "- (GYRO_I_MAX x * 8192) \<le> 0" "0 \<le> GYRO_I_MAX x * 8192"
    by (simp_all add: windup_ok_def)
  then have "constrain 0 (- (GYRO_I_MAX x * 8192)) (GYRO_I_MAX x * 8192) = 0"
    by (rule constrain_zero)
  with True assms(2,3) show ?thesis
    unfolding mw_axis_errorGyroI(1) [OF assms(4)] windup_limits [OF assms(1)]
    by simp
next
  case False
  with assms(3) show ?thesis
    unfolding mw_axis_errorGyroI(1) [OF assms(4)] by simp
qed

lemma lux_axis_zero_error:
  assumes "lux_RateError p crc m g h a = 0" and "errorGyroIf st a = 0"
    and "lux_axis x p crc m g h b st = Inr (t, st')"
  shows "errorGyroIf st' a = 0"
  using assms(1,2) unfolding lux_axis_errorGyroIf(1) [OF assms(3)]
  by (cases "a = b") (simp_all add: constrainf_def)

lemma pidMultiWiiRewrite_zero_error:
  assumes "windup_ok x" and "mw_RateError p crc m g (mw_strength p rx g) a = 0"
    and "errorGyroI st a = 0" and "pidMultiWiiRewrite x p crc m rx g st = Inr st'"
  shows "errorGyroI st' a = 0"
proof -
  let ?body = "mw_axis x p crc m g (mw_strength p rx g)"
  from assms(4) obtain t1 s1 t2 s2 t3 where 1: "?body FD_ROLL st = Inr (t1, s1)"
    and 2: "?body FD_PITCH s1 = Inr (t2, s2)" and 3: "?body FD_YAW s2 = Inr (t3, st')"
    unfolding pidMultiWiiRewrite_def axis_loop3 by blast
  note step = mw_axis_zero_error [OF assms(1,2)]
  from step [OF step [OF step [OF assms(3) 1] 2] 3] show ?thesis .
qed

lemma pidLuxFloat_zero_error:
  assumes "lux_RateError p crc m g (lux_strength p rx g) a = 0"
    and "errorGyroIf st a = 0" and "pidLuxFloat x p crc m rx g st = Inr st'"
  shows "errorGyroIf st' a = 0"
proof -
  let ?body = "lux_axis x p crc m g (lux_strength p rx g)"
  from assms(3) obtain t1 s1 t2 s2 t3 where 1: "?body FD_ROLL st = Inr (t1, s1)"
    and 2: "?body FD_PITCH s1 = Inr (t2, s2)" and 3: "?body FD_YAW s2 = Inr (t3, st')"
    unfolding pidLuxFloat_def axis_loop3 by blast
  note step = lux_axis_zero_error [OF assms(1)]
  from step [OF step [OF step [OF assms(2) 1] 2] 3] show ?thesis .
qed

text \<open>
  C6. After \<^verbatim>\<open>pidResetErrorGyro\<close> both integrators of every axis are zero, and a second
  reset changes nothing. From a state whose integrator is zero on an axis, as the reset
  leaves it, a cycle whose rate error is zero on that axis leaves both the accumulator and
  the I term of the axis at zero (for the integer controller with a windup constant that
  fits); so it stays through every run of such cycles after a reset.
\<close>

theorem reset_zeroes_integrators:
  "errorGyroI (pidResetErrorGyro st) a = 0
   \<and> errorGyroIf (pidResetErrorGyro st) a = 0
   \<and> pidResetErrorGyro (pidResetErrorGyro st) = pidResetErrorGyro st
   \<and> (windup_ok x \<longrightarrow> errorGyroI s a = 0 \<longrightarrow>
        mw_RateError p crc m g (mw_strength p rx g) a = 0 \<longrightarrow>
        pidMultiWiiRewrite x p crc m rx g s = Inr st' \<longrightarrow>
        errorGyroI st' a = 0 \<and> asr (errorGyroI st' a) 13 = 0)
   \<and> (errorGyroIf s a = 0 \<longrightarrow>
        lux_RateError p crc m g (lux_strength p rx g) a = 0 \<longrightarrow>
        pidLuxFloat x p crc m rx g s = Inr st'' \<longrightarrow>
        errorGyroIf st'' a = 0)
   \<and> (windup_ok x \<longrightarrow> errorGyroI s a = 0 \<longrightarrow>
        mw_axis x p crc m g h a s = Inr (t, s1) \<longrightarrow>
        t_RateError t = 0 \<longrightarrow> t_ITerm t = 0)
   \<and> (errorGyroIf s a = 0 \<longrightarrow>
        lux_axis x p crc m g h' a s = Inr (t', s2) \<longrightarrow>
        t_RateError t' = 0 \<longrightarrow> t_ITerm t' = 0)"
proof (intro conjI impI)
  show "errorGyroI (pidResetErrorGyro st) a = 0"
    by (simp add: pidResetErrorGyro_eq)
  show "errorGyroIf (pidResetErrorGyro st) a = 0"
    by (simp add: pidResetErrorGyro_eq)
  show "pidResetErrorGyro (pidResetErrorGyro st) = pidResetErrorGyro st"
    by (simp add: pidResetErrorGyro_eq)
  {
    assume w: "windup_ok x" and z: "errorGyroI s a = 0"
      and e: "mw_RateError p crc m g (mw_strength p rx g) a = 0"
      and r: "pidMultiWiiRewrite x p crc m rx g s = Inr st'"
    from pidMultiWiiRewrite_zero_error [OF w e z r] show "errorGyroI st' a = 0" .
    then show "asr (errorGyroI st' a) 13 = 0" by simp
  }
  {
    assume zf: "errorGyroIf s a = 0"
      and e: "lux_RateError p crc m g (lux_strength p rx g) a = 0"
      and r: "pidLuxFloat x p crc m rx g s = Inr st''"
    from pidLuxFloat_zero_error [OF e zf r] show "errorGyroIf st'' a = 0" .
  }
  {
    assume w: "windup_ok x" and z: "errorGyroI s a = 0"
      and r: "mw_axis x p crc m g h a s = Inr (t, s1)"
      and e: "t_RateError t = 0"
    from e have "mw_RateError p crc m g h a = 0"
      by (simp add: mw_axis_errorGyroI(3) [OF r])
    from mw_axis_zero_error [OF w this z r] show "t_ITerm t = 0"
      by (simp add: mw_axis_errorGyroI(2) [OF r])
  }
  {
    assume zf: "errorGyroIf s a = 0"
      and r: "lux_axis x p crc m g h' a s = Inr (t', s2)"
      and e: "t_RateError t' = 0"
    from e have "lux_RateError p crc m g h' a = 0"
      by (simp add: lux_axis_errorGyroIf(3) [OF r])
    from lux_axis_zero_error [OF this zf r] show "t_ITerm t' = 0"
      by (simp add: lux_axis_errorGyroIf(2) [OF r])
  }
qed

lemma idle_rate_errors:
  "mw_RateError bench_profile bench_rates 500 idle_globals
     (mw_strength bench_profile bench_rx idle_globals) FD_ROLL = 0"
  "lux_RateError bench_profile bench_rates 500 idle_globals
     (lux_strength bench_profile bench_rx idle_globals) FD_ROLL = 0"
  "16 \<le> uint (cycleTime idle_globals)" "dT idle_globals \<noteq> 0"
     apply (simp_all add: bench_defs struct_defs)
  apply (simp_all add: arith_defs)
  done

theorem reset_zeroes_integrators_witness:
  "windup_ok bench_externals
   \<and> mw_RateError bench_profile bench_rates 500 idle_globals
        (mw_strength bench_profile bench_rx idle_globals) FD_ROLL = 0
   \<and> lux_RateError bench_profile bench_rates 500 idle_globals
        (lux_strength bench_profile bench_rx idle_globals) FD_ROLL = 0
   \<and> (\<exists>st'. pidMultiWiiRewrite bench_externals bench_profile bench_rates 500 bench_rx
              idle_globals (pidResetErrorGyro wound_up) = Inr st'
          \<and> errorGyroI st' FD_ROLL = 0 \<and> asr (errorGyroI st' FD_ROLL) 13 = 0)
   \<and> (\<exists>st'. pidLuxFloat bench_externals bench_profile bench_rates 500 bench_rx
              idle_globals (pidResetErrorGyro wound_up) = Inr st'
          \<and> errorGyroIf st' FD_ROLL = 0)
   \<and> (\<exists>t s1. mw_axis bench_externals bench_profile bench_rates 500 idle_globals
                 (mw_strength bench_profile bench_rx idle_globals) FD_ROLL
                 (pidResetErrorGyro wound_up) = Inr (t, s1)
          \<and> t_RateError t = 0 \<and> t_ITerm t = 0)
   \<and> (\<exists>t s2. lux_axis bench_externals bench_profile bench_rates 500 idle_globals
                 (lux_strength bench_profile bench_rx idle_globals) FD_ROLL
                 (pidResetErrorGyro wound_up) = Inr (t, s2)
          \<and> t_RateError t = 0 \<and> t_ITerm t = 0)"
proof -
  let ?hm = "mw_strength bench_profile bench_rx idle_globals"
  let ?hl = "lux_strength bench_profile bench_rx idle_globals"
  let ?s = "pidResetErrorGyro wound_up"
  have w: "windup_ok bench_externals"
    by (simp add: windup_ok_def bench_externals_def)
  note e = idle_rate_errors(1) and ef = idle_rate_errors(2)
  obtain st' where 1: "pidMultiWiiRewrite bench_externals bench_profile bench_rates 500
      bench_rx idle_globals ?s = Inr st'"
    using pidMultiWiiRewrite_returns [OF idle_rate_errors(3)] by blast
  obtain st'' where 2: "pidLuxFloat bench_externals bench_profile bench_rates 500
      bench_rx idle_globals ?s = Inr st''"
    using pidLuxFloat_returns [OF idle_rate_errors(4)] by blast
  obtain t s1 where 3: "mw_axis bench_externals bench_profile bench_rates 500 idle_globals
      ?hm FD_ROLL ?s = Inr (t, s1)"
    using mw_axis_returns [OF idle_rate_errors(3)] by blast
  obtain t' s2 where 4: "lux_axis bench_externals bench_profile bench_rates 500 idle_globals
      ?hl FD_ROLL ?s = Inr (t', s2)"
    using lux_axis_returns [OF idle_rate_errors(4)] by blast
  from e have 5: "t_RateError t = 0"
    by (simp add: mw_axis_errorGyroI(3) [OF 3])
  from ef have 6: "t_RateError t' = 0"
    by (simp add: lux_axis_errorGyroIf(3) [OF 4])
  note th = reset_zeroes_integrators [of wound_up FD_ROLL bench_externals ?s bench_profile
      bench_rates 500 idle_globals bench_rx st' st'' ?hm t s1 ?hl t' s2]
  from th have z: "errorGyroI ?s FD_ROLL = 0" and zf: "errorGyroIf ?s FD_ROLL = 0"
    by blast+
  from th w z e 1 have a: "errorGyroI st' FD_ROLL = 0 \<and> asr (errorGyroI st' FD_ROLL) 13 = 0"
    by blast
  from th zf ef 2 have b: "errorGyroIf st'' FD_ROLL = 0"
    by blast
  from th w z 3 5 have c: "t_ITerm t = 0"
    by blast
  from th zf 4 6 have d: "t_ITerm t' = 0"
    by blast
  from w e ef 1 2 3 4 5 6 a b c d show ?thesis
    by blast
qed

section \<open>Horizon strength at the ends of the stick travel\<close>

lemma lux_strength_centre:
  "lux_horizonLevelStrength 0 sens = (if sens = 0 then 0 else 1)"
  by (simp add: lux_horizonLevelStrength_def s32_def constrainf_def uint_0_iff)

lemma lux_strength_zero_sens: "lux_horizonLevelStrength d 0 = 0"
  by (simp add: lux_horizonLevelStrength_def)

lemma lux_strength_full:
  assumes "uint sens \<le> 100"
  shows "lux_horizonLevelStrength 500 sens = 0"
proof (cases "uint sens = 0")
  case True
  then show ?thesis by (simp add: lux_horizonLevelStrength_def)
next
  case False
  then have "0 < uint sens" by (simp add: less_le)
  with assms have "0 < 100 div uint sens"
    using pos_imp_zdiv_pos_iff [of "uint sens" 100] by blast
  then have "1 \<le> real_of_int (100 div uint sens)"
    by linarith
  with False show ?thesis
    by (simp add: lux_horizonLevelStrength_def s32_def constrainf_def)
qed

lemma lux_strength_full_insensitive:
  assumes "100 < uint sens"
  shows "lux_horizonLevelStrength d sens = 1"
proof -
  from assms have "100 div uint sens = 0"
    by simp
  with assms show ?thesis
    by (simp add: lux_horizonLevelStrength_def constrainf_def)
qed

lemma mw_strength_centre: "mw_horizonLevelStrength 0 sens = 100"
  by (simp add: mw_horizonLevelStrength_def s32_def s8_def cdiv_def constrain_def)

lemma mw_strength_full:
  assumes "80 \<le> uint sens"
  shows "mw_horizonLevelStrength 500 sens = 0"
proof -
  have h: "s8 (cdiv (s32 (500 - 500)) 5) = 0"
    by (simp add: s8_def cdiv_def)
  from assms have k: "10 \<le> cdiv (10 * uint sens) 80"
    by (simp add: cdiv_def sgn_if)
  define k where "k = cdiv (10 * uint sens) 80"
  have "cdiv (10 * (0 - 100) * k) 100 = - (10 * k)" if "10 \<le> k"
    using that by (simp add: cdiv_def sgn_if)
  with k have "cdiv (10 * (0 - 100) * cdiv (10 * uint sens) 80) 100 + 100 \<le> 0"
    by (simp add: k_def)
  then show ?thesis
    unfolding mw_horizonLevelStrength_def h Let_def
    by (simp add: constrain_def s8_def)
qed

lemma bench_deflections:
  "stick_deflection horizon_globals bench_rx = 500"
  "stick_deflection centred_globals bench_rx = 0"
  by (simp_all add: stick_deflection_def mostDeflectedPos_def ABS_def bench_defs)

lemma bench_strengths:
  "mw_strength (bench_profile\<lparr>D8 := (\<lambda>_. 0)\<rparr>) bench_rx horizon_globals = 100"
  "lux_strength (bench_profile\<lparr>H_sensitivity := 200\<rparr>) bench_rx horizon_globals = 1"
   apply (simp_all add: mw_strength_def lux_strength_def bench_deflections
      mw_horizonLevelStrength_def lux_horizonLevelStrength_def)
   apply (simp_all add: horizon_globals_def bench_globals_def arith_defs)
  done

text \<open>
  C3, as stated, fails twice. In horizon mode with the sticks at full deflection (500), the
  integer controller with a zero sensitivity \<open>D8[PIDLEVEL]\<close> has strength 100, not 0, and
  the float controller with sensitivity 200 has strength 1, not 0.
\<close>

theorem horizon_strength_counterexample:
  "HORIZON_MODE horizon_globals
   \<and> stick_deflection horizon_globals bench_rx = 500
   \<and> mw_strength (bench_profile\<lparr>D8 := (\<lambda>_. 0)\<rparr>) bench_rx horizon_globals = 100
   \<and> lux_strength (bench_profile\<lparr>H_sensitivity := 200\<rparr>) bench_rx horizon_globals = 1"
  using bench_deflections(1) bench_strengths
  by (simp add: horizon_globals_def)

text \<open>
  C3, amended. In horizon mode, with the sticks centred the strength is at its maximum: 1
  in the float controller for every nonzero sensitivity, 100 in the integer controller for
  every sensitivity. A zero sensitivity forces strength 0 at every stick position in the
  float controller only. At full deflection (500) the strength is 0 in the float controller
  when the sensitivity is at most 100, and in the integer controller when the sensitivity
  \<open>D8[PIDLEVEL]\<close> is at least 80.
\<close>

theorem horizon_strength_ends:
  assumes "HORIZON_MODE g"
  shows "(stick_deflection g rx = 0 \<longrightarrow> H_sensitivity p \<noteq> 0 \<longrightarrow> lux_strength p rx g = 1)
       \<and> (H_sensitivity p = 0 \<longrightarrow> lux_strength p rx g = 0)
       \<and> (stick_deflection g rx = 500 \<longrightarrow> uint (H_sensitivity p) \<le> 100 \<longrightarrow>
            lux_strength p rx g = 0)
       \<and> (stick_deflection g rx = 0 \<longrightarrow> mw_strength p rx g = 100)
       \<and> (stick_deflection g rx = 500 \<longrightarrow> 80 \<le> uint (D8 p PIDLEVEL) \<longrightarrow>
            mw_strength p rx g = 0)"
  using assms
  by (simp add: lux_strength_def mw_strength_def lux_strength_centre lux_strength_zero_sens
      lux_strength_full mw_strength_centre mw_strength_full)

theorem horizon_strength_ends_witness:
  "HORIZON_MODE centred_globals \<and> HORIZON_MODE horizon_globals
   \<and> stick_deflection centred_globals bench_rx = 0
   \<and> stick_deflection horizon_globals bench_rx = 500
   \<and> H_sensitivity bench_profile \<noteq> 0 \<and> uint (H_sensitivity bench_profile) \<le> 100
   \<and> H_sensitivity (bench_profile\<lparr>H_sensitivity := 0\<rparr>) = 0
   \<and> 80 \<le> uint (D8 (bench_profile\<lparr>D8 := (\<lambda>_. 100)\<rparr>) PIDLEVEL)
   \<and> lux_strength bench_profile bench_rx centred_globals = 1
   \<and> lux_strength (bench_profile\<lparr>H_sensitivity := 0\<rparr>) bench_rx horizon_globals = 0
   \<and> lux_strength bench_profile bench_rx horizon_globals = 0
   \<and> mw_strength bench_profile bench_rx centred_globals = 100
   \<and> mw_strength (bench_profile\<lparr>D8 := (\<lambda>_. 100)\<rparr>) bench_rx horizon_globals = 0"
proof -
  have c: "HORIZON_MODE centred_globals" and h: "HORIZON_MODE horizon_globals"
    by (simp_all add: centred_globals_def horizon_globals_def)
  have s: "H_sensitivity bench_profile \<noteq> 0" "uint (H_sensitivity bench_profile) \<le> 100"
    "80 \<le> uint (D8 (bench_profile\<lparr>D8 := (\<lambda>_. 100)\<rparr>) PIDLEVEL)"
    by (simp_all add: bench_profile_def)
  from horizon_strength_ends [OF c, of bench_rx bench_profile]
    horizon_strength_ends [OF h, of bench_rx bench_profile]
    horizon_strength_ends [OF h, of bench_rx "bench_profile\<lparr>H_sensitivity := 0\<rparr>"]
    horizon_strength_ends [OF h, of bench_rx "bench_profile\<lparr>D8 := (\<lambda>_. 100)\<rparr>"]
    c h s bench_deflections
  show ?thesis
    by simp
qed

section \<open>The derivative term\<close>

lemma mw_axis_DTerm:
  assumes "mw_axis x p crc m g h a st = Inr (t, st')"
  shows "t_DTerm t = asr (cdiv (s32 (s32 (t_deltaSum t * uint (D8 p (axis_index a)))
                                      * uint (PIDweight g a))) 100) 8"
    and "dterm_cut_hz p = 0 \<Longrightarrow>
           t_deltaSum t = s32 (s32 (mw_delta1 st a + mw_delta2 st a) + mw_delta1 st' a)"
    and "dterm_cut_hz p \<noteq> 0 \<Longrightarrow>
           t_deltaSum t = float_to_int32 (fst (filterApplyPt1 x
              (real_of_int (s32 (s32 (mw_delta1 st a + mw_delta2 st a) + mw_delta1 st' a)))
              (DTermState st a) (dterm_cut_hz p) (dT g)))"
    and "mw_delta2 st' a = mw_delta1 st a"
    and "mw_delta1 st' a = asr (s32 (s32 (mw_RateError p crc m g h a - mw_lastError st a)
                                       * cdiv 65535 (asr (uint (cycleTime g)) 4))) 6"
    and "mw_lastError st' a = mw_RateError p crc m g h a"
  using assms
  by (auto simp: mw_axis_def Let_def split: if_splits prod.splits)

lemma lux_axis_DTerm:
  assumes "lux_axis x p crc m g h a st = Inr (t, st')"
  shows "t_DTerm t = constrainf (t_deltaSum t / 3 * D_f p a
                                   * real_of_int (uint (PIDweight g a)) / 100) (- 300) 300"
    and "dterm_cut_hz p = 0 \<Longrightarrow>
           t_deltaSum t = lux_delta1 st a + lux_delta2 st a + lux_delta1 st' a"
    and "lux_delta2 st' a = lux_delta1 st a"
    and "lux_delta1 st' a = (lux_RateError p crc m g h a - lux_lastError st a) * (1 / dT g)"
  using assms
  by (auto simp: lux_axis_def Let_def split: if_splits prod.splits)

lemma bench_mw_dterm:
  "map_option t_deltaSum (pass_terms (mw_axis bench_externals bench_profile bench_rates 500
     bench_globals 100 FD_ROLL (power_on ()))) = Some 31682"
  "map_option t_DTerm (pass_terms (mw_axis bench_externals bench_profile bench_rates 500
     bench_globals 100 FD_ROLL (power_on ()))) = Some 2846"
  "spec_mw_DTerm 31682 (uint (D8 bench_profile (axis_index FD_ROLL)))
     (uint (PIDweight bench_globals FD_ROLL)) = 948"
    apply (simp_all add: bench_defs struct_defs pass_terms_def spec_mw_DTerm_def)
    apply (simp_all add: arith_defs)
  done

lemma bench_lux_dterm:
  "map_option t_deltaSum (pass_terms (lux_axis bench_externals bench_profile bench_rates 500
     bench_globals 1 FD_ROLL (power_on ()))) = Some 600000"
  "map_option t_DTerm (pass_terms (lux_axis bench_externals bench_profile bench_rates 500
     bench_globals 1 FD_ROLL (power_on ()))) = Some 300"
  "spec_lux_DTerm 600000 (D_f bench_profile FD_ROLL)
     (real_of_int (uint (PIDweight bench_globals FD_ROLL))) = 30"
    apply (simp_all add: bench_defs struct_defs pass_terms_def spec_lux_DTerm_def)
    apply (simp_all add: arith_defs)
  done

text \<open>
  C4, as stated, fails: the integer controller never divides the moving sum by 3. On the
  first roll pass from power-on (D gain 23, weight 100, rate 100, stick at 500, no filter) the
  moving sum is 31682 and the D term is 2846; with the sum divided by 3 first it would
  be 948.
\<close>

theorem integer_dterm_counterexample:
  "map_option t_deltaSum (pass_terms (mw_axis bench_externals bench_profile bench_rates 500
     bench_globals 100 FD_ROLL (power_on ()))) = Some 31682
   \<and> map_option t_DTerm (pass_terms (mw_axis bench_externals bench_profile bench_rates 500
        bench_globals 100 FD_ROLL (power_on ()))) = Some 2846
   \<and> spec_mw_DTerm 31682 (uint (D8 bench_profile (axis_index FD_ROLL)))
        (uint (PIDweight bench_globals FD_ROLL)) = 948"
  using bench_mw_dterm by simp

text \<open>
  C4, amended. In a pass of the integer controller the D term is computed from the moving
  sum itself: the sum times the axis D gain times the weight factor, divided by 100 and
  shifted right by 8, with no division by 3. Without a D-term cutoff the sum is the
  time-corrected delta of this cycle plus the two persisted deltas (with a cutoff it is
  that sum passed through the D-term filter); the deltas are shifted by one place and the
  rate error is persisted.
\<close>

theorem integer_dterm_from_sum:
  assumes "mw_axis x p crc m g h a st = Inr (t, st')"
  shows "t_DTerm t = asr (cdiv (s32 (s32 (t_deltaSum t * uint (D8 p (axis_index a)))
                                      * uint (PIDweight g a))) 100) 8
       \<and> (dterm_cut_hz p = 0 \<longrightarrow>
            t_deltaSum t = s32 (s32 (mw_delta1 st a + mw_delta2 st a) + mw_delta1 st' a))
       \<and> (dterm_cut_hz p \<noteq> 0 \<longrightarrow>
            t_deltaSum t = float_to_int32 (fst (filterApplyPt1 x
              (real_of_int (s32 (s32 (mw_delta1 st a + mw_delta2 st a) + mw_delta1 st' a)))
              (DTermState st a) (dterm_cut_hz p) (dT g))))
       \<and> mw_delta1 st' a = asr (s32 (s32 (mw_RateError p crc m g h a - mw_lastError st a)
                                       * cdiv 65535 (asr (uint (cycleTime g)) 4))) 6
       \<and> mw_delta2 st' a = mw_delta1 st a
       \<and> mw_lastError st' a = mw_RateError p crc m g h a"
  using mw_axis_DTerm [OF assms] by simp

theorem integer_dterm_from_sum_witness:
  "\<exists>t st'. mw_axis bench_externals bench_profile bench_rates 500 bench_globals 100 FD_ROLL
             (power_on ()) = Inr (t, st')
     \<and> dterm_cut_hz bench_profile = 0
     \<and> t_DTerm t = asr (cdiv (s32 (s32 (t_deltaSum t
                                        * uint (D8 bench_profile (axis_index FD_ROLL)))
                                   * uint (PIDweight bench_globals FD_ROLL))) 100) 8
     \<and> t_deltaSum t = s32 (s32 (mw_delta1 (power_on ()) FD_ROLL
                                 + mw_delta2 (power_on ()) FD_ROLL) + mw_delta1 st' FD_ROLL)
     \<and> mw_delta2 st' FD_ROLL = mw_delta1 (power_on ()) FD_ROLL"
proof -
  obtain t st' where 1: "mw_axis bench_externals bench_profile bench_rates 500 bench_globals
      100 FD_ROLL (power_on ()) = Inr (t, st')"
    using bench_mw_pass by blast
  have 2: "dterm_cut_hz bench_profile = 0"
    by (simp add: bench_profile_def)
  from integer_dterm_from_sum [OF 1] 1 2 show ?thesis
    by blast
qed

text \<open>
  C5, as stated, fails: the float controller clamps the product, not the averaged sum. On
  the first roll pass from power-on (D gain 0.1, weight 100, no D-term filter) the moving
  sum is 600000 and the D term is 300, the clamp bound; clamping the average to 300
  before the gain would give 30.
\<close>

theorem float_dterm_counterexample:
  "map_option t_deltaSum (pass_terms (lux_axis bench_externals bench_profile bench_rates 500
     bench_globals 1 FD_ROLL (power_on ()))) = Some 600000
   \<and> map_option t_DTerm (pass_terms (lux_axis bench_externals bench_profile bench_rates 500
        bench_globals 1 FD_ROLL (power_on ()))) = Some 300
   \<and> spec_lux_DTerm 600000 (D_f bench_profile FD_ROLL)
        (real_of_int (uint (PIDweight bench_globals FD_ROLL))) = 30"
  using bench_lux_dterm by simp

text \<open>
  C5, amended. In a pass of the float controller the averaged moving sum is multiplied by
  the axis D gain and the weight factor and divided by 100, and this product is clamped to
  \<open>[-300, 300]\<close>: the D term never exceeds 300 in magnitude.
\<close>

theorem float_dterm_clamped_after_gain:
  assumes "lux_axis x p crc m g h a st = Inr (t, st')"
  shows "t_DTerm t = constrainf (t_deltaSum t / 3 * D_f p a
                                   * real_of_int (uint (PIDweight g a)) / 100) (- 300) 300
       \<and> \<bar>t_DTerm t\<bar> \<le> 300"
proof -
  have "\<bar>constrainf amt (- 300) 300\<bar> \<le> 300" for amt
    using constrainf_bounds [of "- 300" 300 amt] by (simp add: abs_le_iff)
  with lux_axis_DTerm(1) [OF assms] show ?thesis
    by simp
qed

theorem float_dterm_clamped_after_gain_witness:
  "\<exists>t st'. lux_axis bench_externals bench_profile bench_rates 500 bench_globals 1 FD_ROLL
             (power_on ()) = Inr (t, st')
     \<and> t_DTerm t = constrainf (t_deltaSum t / 3 * D_f bench_profile FD_ROLL
                       * real_of_int (uint (PIDweight bench_globals FD_ROLL)) / 100) (- 300) 300
     \<and> \<bar>t_DTerm t\<bar> \<le> 300"
proof -
  obtain t st' where 1: "lux_axis bench_externals bench_profile bench_rates 500 bench_globals
      1 FD_ROLL (power_on ()) = Inr (t, st')"
    using bench_lux_pass by blast
  from float_dterm_clamped_after_gain [OF 1] 1 show ?thesis
    by blast
qed

section \<open>The unguarded divisions\<close>

text \<open>
  C10. Neither controller guards its division by the cycle time. The integer controller
  divides \<open>0xFFFF\<close> by \<open>cycleTime >> 4\<close>, the float controller divides by \<open>dT\<close>. With
  \<open>cycleTime \<ge> 16\<close> the integer controller completes its cycle, with \<open>dT > 0\<close> the float
  controller completes its cycle; with \<open>cycleTime < 16\<close> the integer controller reaches the
  division by zero, and so does the float controller with \<open>dT = 0\<close>.
\<close>

theorem cycle_time_division:
  "(16 \<le> uint (cycleTime g) \<longrightarrow> (\<exists>st'. pidMultiWiiRewrite x p crc m rx g st = Inr st'))
   \<and> (0 < dT g \<longrightarrow> (\<exists>st'. pidLuxFloat x p crc m rx g st = Inr st'))
   \<and> (uint (cycleTime g) < 16 \<longrightarrow> pidMultiWiiRewrite x p crc m rx g st = Inl DivisionByZero)
   \<and> (dT g = 0 \<longrightarrow> pidLuxFloat x p crc m rx g st = Inl DivisionByZero)"
proof (intro conjI impI)
  assume "16 \<le> uint (cycleTime g)"
  then show "\<exists>st'. pidMultiWiiRewrite x p crc m rx g st = Inr st'"
    by (rule pidMultiWiiRewrite_returns)
next
  assume "0 < dT g"
  then have "dT g \<noteq> 0" by simp
  then show "\<exists>st'. pidLuxFloat x p crc m rx g st = Inr st'"
    by (rule pidLuxFloat_returns)
next
  assume "uint (cycleTime g) < 16"
  then show "pidMultiWiiRewrite x p crc m rx g st = Inl DivisionByZero"
    by (simp add: pidMultiWiiRewrite_def mw_axis_traps)
next
  assume "dT g = 0"
  then show "pidLuxFloat x p crc m rx g st = Inl DivisionByZero"
    by (simp add: pidLuxFloat_def lux_axis_traps)
qed

theorem cycle_time_division_witness:
  "16 \<le> uint (cycleTime bench_globals)
   \<and> (\<exists>st'. pidMultiWiiRewrite bench_externals bench_profile bench_rates 500 bench_rx
              bench_globals (power_on ()) = Inr st')
   \<and> 0 < dT bench_globals
   \<and> (\<exists>st'. pidLuxFloat bench_externals bench_profile bench_rates 500 bench_rx
              bench_globals (power_on ()) = Inr st')
   \<and> uint (cycleTime stalled_globals) < 16
   \<and> pidMultiWiiRewrite bench_externals bench_profile bench_rates 500 bench_rx
        stalled_globals (power_on ()) = Inl DivisionByZero
   \<and> dT stalled_globals = 0
   \<and> pidLuxFloat bench_externals bench_profile bench_rates 500 bench_rx
        stalled_globals (power_on ()) = Inl DivisionByZero"
  using cycle_time_division [of bench_globals bench_externals bench_profile bench_rates 500
          bench_rx "power_on ()"]
        cycle_time_division [of stalled_globals bench_externals bench_profile bench_rates 500
          bench_rx "power_on ()"]
  by (simp add: bench_globals_def stalled_globals_def)

section \<open>Reset and selection leave the rest of the state alone\<close>

text \<open>
  C7. \<^verbatim>\<open>pidResetErrorGyro\<close> writes the two integrator arrays and nothing else: putting
  the old integrators back gives the old state, and for every axis the derivative history
  of both controllers and the P-term and D-term filter states are what they were.
\<close>

theorem reset_frame:
  "(pidResetErrorGyro st)\<lparr>errorGyroI := errorGyroI st, errorGyroIf := errorGyroIf st\<rparr> = st
   \<and> lux_lastError (pidResetErrorGyro st) a = lux_lastError st a
   \<and> lux_delta1 (pidResetErrorGyro st) a = lux_delta1 st a
   \<and> lux_delta2 (pidResetErrorGyro st) a = lux_delta2 st a
   \<and> mw_lastError (pidResetErrorGyro st) a = mw_lastError st a
   \<and> mw_delta1 (pidResetErrorGyro st) a = mw_delta1 st a
   \<and> mw_delta2 (pidResetErrorGyro st) a = mw_delta2 st a
   \<and> PTermState (pidResetErrorGyro st) a = PTermState st a
   \<and> DTermState (pidResetErrorGyro st) a = DTermState st a"
  by (simp add: pidResetErrorGyro_def)

text \<open>
  C9. \<^verbatim>\<open>pidSetController\<close> writes the selection and nothing else: putting the old
  selection back gives the old state, and for every axis both integrators, the derivative
  history of both controllers and the P-term and D-term filter states carry over.
\<close>

theorem set_controller_frame:
  "(pidSetController ty st)\<lparr>pid_controller := pid_controller st\<rparr> = st
   \<and> errorGyroI (pidSetController ty st) a = errorGyroI st a
   \<and> errorGyroIf (pidSetController ty st) a = errorGyroIf st a
   \<and> lux_lastError (pidSetController ty st) a = lux_lastError st a
   \<and> lux_delta1 (pidSetController ty st) a = lux_delta1 st a
   \<and> lux_delta2 (pidSetController ty st) a = lux_delta2 st a
   \<and> mw_lastError (pidSetController ty st) a = mw_lastError st a
   \<and> mw_delta1 (pidSetController ty st) a = mw_delta1 st a
   \<and> mw_delta2 (pidSetController ty st) a = mw_delta2 st a
   \<and> PTermState (pidSetController ty st) a = PTermState st a
   \<and> DTermState (pidSetController ty st) a = DTermState st a"
  by (cases ty) simp_all

section \<open>The yaw axis\<close>

text \<open>
  C8. In both controllers the desired yaw rate is a function of the yaw stick command and
  the yaw rate setting alone: changing the angle-hold flag and the attitude estimate does
  not change it, and so the whole yaw pass (its terms, its output and the state it leaves)
  is the same in the two runs.
\<close>

theorem yaw_rate_ignores_angle_mode:
  "mw_AngleRateTmp p crc m (g\<lparr>ANGLE_MODE := b, attitude_raw := att\<rparr>) h FD_YAW
     = mw_AngleRateTmp p crc m g h FD_YAW
   \<and> mw_AngleRateTmp p crc m g h FD_YAW
     = asr ((uint (rates crc FD_YAW) + 27) * sint (rcCommand g FD_YAW)) 5
   \<and> lux_AngleRate p crc m (g\<lparr>ANGLE_MODE := b, attitude_raw := att\<rparr>) h' FD_YAW
     = lux_AngleRate p crc m g h' FD_YAW
   \<and> lux_AngleRate p crc m g h' FD_YAW
     = real_of_int ((uint (rates crc FD_YAW) + 10) * sint (rcCommand g FD_YAW)) / 50
   \<and> mw_axis x p crc m (g\<lparr>ANGLE_MODE := b, attitude_raw := att\<rparr>) h FD_YAW st
     = mw_axis x p crc m g h FD_YAW st
   \<and> lux_axis x p crc m (g\<lparr>ANGLE_MODE := b, attitude_raw := att\<rparr>) h' FD_YAW st
     = lux_axis x p crc m g h' FD_YAW st"
  by (simp add: mw_AngleRateTmp_def lux_AngleRate_def mw_axis_def lux_axis_def
      mw_RateError_def lux_RateError_def Let_def)

end
